theory Spec2Isabelle
  imports Complex_Main
begin

section \<open>JavaScript numbers\<close>

text \<open>
  A JavaScript \<open>number\<close> is modelled as an extended real: a finite value, one of the two
  infinities, or \<open>NaN\<close>. The operations below are the ones the source applies to numbers,
  with the IEEE-754 results for the non-finite operands written out. On finite operands
  the model computes exactly, where the program rounds each result to the nearest double
  and may overflow to an infinity or underflow to zero, and the model has one zero, taken
  as positive when it is a divisor. So the model does not give the digits of a step size
  nor the text it displays as, and nothing is stated of them. What the theorems use of a
  computed step size is whether it is \<open>NaN\<close>, which for finite operands the counts alone
  decide in the doubles as in the model, and how values compare; the values of the
  examples are small integers, computed without rounding in the doubles too.
\<close>

datatype number = NaN | PInf | NInf | Fin real

fun num_neg :: "number \<Rightarrow> number" where
  "num_neg NaN = NaN"
| "num_neg PInf = NInf"
| "num_neg NInf = PInf"
| "num_neg (Fin a) = Fin (- a)"

fun num_add :: "number \<Rightarrow> number \<Rightarrow> number" where
  "num_add NaN _ = NaN"
| "num_add _ NaN = NaN"
| "num_add PInf NInf = NaN"
| "num_add NInf PInf = NaN"
| "num_add PInf _ = PInf"
| "num_add NInf _ = NInf"
| "num_add (Fin a) PInf = PInf"
| "num_add (Fin a) NInf = NInf"
| "num_add (Fin a) (Fin b) = Fin (a + b)"

definition num_sub :: "number \<Rightarrow> number \<Rightarrow> number" where
  "num_sub a b = num_add a (num_neg b)"

text \<open>The sign of a number that is not \<open>NaN\<close>: \<open>1\<close>, \<open>0\<close> or \<open>-1\<close>.\<close>

fun num_sgn :: "number \<Rightarrow> int" where
  "num_sgn NaN = 0"
| "num_sgn PInf = 1"
| "num_sgn NInf = - 1"
| "num_sgn (Fin a) = (if a > 0 then 1 else if a < 0 then - 1 else 0)"

definition signed_inf :: "int \<Rightarrow> number" where
  "signed_inf s = (if s > 0 then PInf else if s < 0 then NInf else NaN)"

fun num_mul :: "number \<Rightarrow> number \<Rightarrow> number" where
  "num_mul NaN _ = NaN"
| "num_mul _ NaN = NaN"
| "num_mul (Fin a) (Fin b) = Fin (a * b)"
| "num_mul a b = signed_inf (num_sgn a * num_sgn b)"

text \<open>
  Division: a finite non-zero value over zero is an infinity with the sign of the
  dividend, \<open>0 / 0\<close> and \<open>\<infinity> / \<infinity>\<close> are \<open>NaN\<close>, a finite value over an infinity
  is zero.
\<close>

fun num_div :: "number \<Rightarrow> number \<Rightarrow> number" where
  "num_div NaN _ = NaN"
| "num_div _ NaN = NaN"
| "num_div (Fin a) (Fin b) = (if b = 0 then signed_inf (num_sgn (Fin a)) else Fin (a / b))"
| "num_div (Fin a) _ = Fin 0"
| "num_div a (Fin b) = signed_inf (num_sgn a * (if b < 0 then - 1 else 1))"
| "num_div _ _ = NaN"

fun num_abs :: "number \<Rightarrow> number" where
  "num_abs NaN = NaN"
| "num_abs PInf = PInf"
| "num_abs NInf = PInf"
| "num_abs (Fin a) = Fin \<bar>a\<bar>"

text \<open>\<open>x ** 2\<close>.\<close>

fun num_square :: "number \<Rightarrow> number" where
  "num_square NaN = NaN"
| "num_square PInf = PInf"
| "num_square NInf = PInf"
| "num_square (Fin a) = Fin (a\<^sup>2)"

fun num_sqrt :: "number \<Rightarrow> number" where
  "num_sqrt NaN = NaN"
| "num_sqrt PInf = PInf"
| "num_sqrt NInf = NaN"
| "num_sqrt (Fin a) = (if a < 0 then NaN else Fin (sqrt a))"

text \<open>\<open>!x\<close> on a number: zero and \<open>NaN\<close> are the falsy numbers.\<close>

fun falsy :: "number \<Rightarrow> bool" where
  "falsy NaN = True"
| "falsy (Fin a) = (a = 0)"
| "falsy _ = False"

text \<open>\<open>a < b\<close> and \<open>a > b\<close>; a comparison with \<open>NaN\<close> is false.\<close>

fun num_lt :: "number \<Rightarrow> number \<Rightarrow> bool" where
  "num_lt NaN _ = False"
| "num_lt _ NaN = False"
| "num_lt PInf _ = False"
| "num_lt _ NInf = False"
| "num_lt NInf _ = True"
| "num_lt (Fin a) PInf = True"
| "num_lt (Fin a) (Fin b) = (a < b)"

definition num_gt :: "number \<Rightarrow> number \<Rightarrow> bool" where
  "num_gt a b = num_lt b a"

definition isNaN :: "number \<Rightarrow> bool" where
  "isNaN a = (a = NaN)"

section \<open>Domain records\<close>

text \<open>
  The classes \<open>Marcher\<close>, \<open>Page\<close>, \<open>MarcherPage\<close> and \<open>FieldProperties\<close> with the fields
  the verified code reads. Identities are database integers; coordinates, counts and
  \<open>pixelsPerStep\<close> are finite numbers.
\<close>

record marcher =
  m_id :: int
  drill_number :: string

record page =
  pg_id :: int
  pg_order :: int
  counts :: real
  pg_name :: string

record marcherPage =
  mp_id :: int
  marcher_id :: int
  page_id :: int
  mp_x :: real
  mp_y :: real

record fieldProperties =
  pixelsPerStep :: real

section \<open>StepSize\<close>

definition INCHES_PER_YARD :: real where
  "INCHES_PER_YARD = 36"

record stepSize =
  stepsPerFiveYards :: number
  ss_marcher_id :: int

text \<open>\<open>StepSize.calculateStepSize\<close>.\<close>

definition calculateStepSize ::
  "number \<Rightarrow> number \<Rightarrow> number \<Rightarrow> number \<Rightarrow> number \<Rightarrow> number \<Rightarrow> number" where
  "calculateStepSize startingX startingY endingX endingY cnts pxPerStep =
     (if falsy cnts then NaN
      else
        let xDistance = num_abs (num_sub endingX startingX);
            yDistance = num_abs (num_sub endingY startingY);
            distanceInPixels = num_sqrt (num_add (num_square xDistance) (num_square yDistance))
        in if falsy distanceInPixels then PInf
           else
             let distanceIn8to5Steps = num_div distanceInPixels pxPerStep;
                 distanceCoveredInInches = num_mul distanceIn8to5Steps (Fin 22.5);
                 distanceInInchesPerStep = num_div distanceCoveredInInches cnts
             in num_div (Fin (INCHES_PER_YARD * 5)) distanceInInchesPerStep)"

text \<open>The constructor of \<open>StepSize\<close>.\<close>

definition new_StepSize ::
  "int \<Rightarrow> real \<Rightarrow> real \<Rightarrow> real \<Rightarrow> real \<Rightarrow> real \<Rightarrow> fieldProperties \<Rightarrow> stepSize" where
  "new_StepSize mid startingX startingY endingX endingY cnts fp =
     \<lparr> stepsPerFiveYards =
         calculateStepSize (Fin startingX) (Fin startingY) (Fin endingX) (Fin endingY)
           (Fin cnts) (Fin (pixelsPerStep fp)),
       ss_marcher_id = mid \<rparr>"

text \<open>\<open>StepSize.createStepSizeForMarcher\<close>; \<open>undefined\<close> is \<open>None\<close>.\<close>

definition createStepSizeForMarcher ::
  "marcherPage option \<Rightarrow> marcherPage \<Rightarrow> page option \<Rightarrow> fieldProperties \<Rightarrow> stepSize option" where
  "createStepSizeForMarcher startingPage endingPage pg fp =
     (case startingPage of
        None \<Rightarrow> None
      | Some sp \<Rightarrow>
          (case pg of
             None \<Rightarrow> None
           | Some p \<Rightarrow>
               Some (new_StepSize (marcher_id endingPage) (mp_x sp) (mp_y sp)
                       (mp_x endingPage) (mp_y endingPage) (counts p) fp)))"

text \<open>
  \<open>StepSize.createStepSizesForMarchers\<close>. \<open>Array.prototype.find\<close> is \<open>List.find\<close>; the final
  \<open>filter\<close> drops the \<open>undefined\<close> entries.
\<close>

definition createStepSizesForMarchers ::
  "marcher list \<Rightarrow> marcherPage list \<Rightarrow> page \<Rightarrow> fieldProperties \<Rightarrow> stepSize list" where
  "createStepSizesForMarchers marchers marcherPages pg fp =
     (let startingPages = filter (\<lambda>mp. page_id mp = pg_id pg - 1) marcherPages;
          endingPages = filter (\<lambda>mp. page_id mp = pg_id pg) marcherPages
      in List.map_filter (\<lambda>x. x)
           (map (\<lambda>m.
                   let startingPage = find (\<lambda>mp. marcher_id mp = m_id m) startingPages;
                       endingPage = find (\<lambda>mp. marcher_id mp = m_id m) endingPages
                   in case endingPage of
                        None \<Rightarrow> None
                      | Some ep \<Rightarrow> createStepSizeForMarcher startingPage ep (Some pg) fp)
              marchers))"

text \<open>\<open>StepSize.compare\<close>.\<close>

definition compare :: "stepSize \<Rightarrow> stepSize \<Rightarrow> number" where
  "compare a b = num_sub (stepsPerFiveYards b) (stepsPerFiveYards a)"

text \<open>
  \<open>Array.prototype.sort\<close> with a comparator. ECMAScript's \<open>SortCompare\<close> reads a \<open>NaN\<close>
  result of the comparator as \<open>+0\<close>; the sort is stable, and is modelled as an insertion
  sort: an element goes in front of the first later element it does not follow.
\<close>

definition sortCompare :: "('a \<Rightarrow> 'a \<Rightarrow> number) \<Rightarrow> 'a \<Rightarrow> 'a \<Rightarrow> number" where
  "sortCompare comparefn a b = (let v = comparefn a b in if isNaN v then Fin 0 else v)"

fun sort_insert :: "('a \<Rightarrow> 'a \<Rightarrow> number) \<Rightarrow> 'a \<Rightarrow> 'a list \<Rightarrow> 'a list" where
  "sort_insert comparefn a [] = [a]"
| "sort_insert comparefn a (b # bs) =
     (if num_gt (sortCompare comparefn a b) (Fin 0) then b # sort_insert comparefn a bs
      else a # b # bs)"

definition array_sort :: "('a \<Rightarrow> 'a \<Rightarrow> number) \<Rightarrow> 'a list \<Rightarrow> 'a list" where
  "array_sort comparefn xs = foldr (sort_insert comparefn) xs []"

record minMaxStepSizes =
  min_step :: "stepSize option"
  max_step :: "stepSize option"

text \<open>\<open>StepSize.getMinAndMaxStepSizesForMarchers\<close>.\<close>

definition getMinAndMaxStepSizesForMarchers ::
  "marcher list \<Rightarrow> marcherPage list \<Rightarrow> page \<Rightarrow> fieldProperties \<Rightarrow> minMaxStepSizes" where
  "getMinAndMaxStepSizesForMarchers marchers marcherPages pg fp =
     (let stepSizes =
            array_sort (\<lambda>o1 o2. compare o1 o2)
              (createStepSizesForMarchers marchers marcherPages pg fp)
      in if length stepSizes = 0 then \<lparr> min_step = None, max_step = None \<rparr>
         else \<lparr> min_step = Some (stepSizes ! 0),
                max_step = Some (stepSizes ! (length stepSizes - 1)) \<rparr>)"

section \<open>The canvas\<close>

text \<open>
  \<open>OpenMarchCanvas\<close> extends the \<open>fabric.Canvas\<close> of the rendering library. Its objects are
  held in the order they were added; each carries the identity it was allocated under,
  which stands for the object reference. The run-time class of an object is its
  constructor here, so \<open>instanceof\<close> is a discriminator.
\<close>

text \<open>
  Modelled from the spec: the classes \<open>CanvasMarcher\<close>, \<open>StaticCanvasMarcher\<close> and \<open>Pathway\<close>
  are imported by \<open>OpenMarchCanvas.ts\<close> and their files are missing. A \<open>CanvasMarcher\<close> is the
  live marker of one marcher (\<open>marcherObj\<close>) holding its current coordinates; a ghost marker
  and a pathway are object kinds of their own; the field grid is a \<open>fabric.Group\<close>.
\<close>

datatype canvasObject =
    CanvasMarcher (oid: nat) (marcherObj: marcher) (cm_x: real) (cm_y: real)
  | StaticCanvasMarcher (oid: nat) marcher real real string
  | Pathway (oid: nat) real real real real string
  | FieldGrid (oid: nat)

record canvas =
  objects :: "canvasObject list"
  nextOid :: nat
  renderRequested :: bool
  renderAllCalls :: nat
  console :: "string list"
  zoom :: real
  panX :: real
  panY :: real
  staticGridObjectCaching :: bool
  zoomTimeout :: "nat option"

text \<open>Library methods of \<open>fabric.Canvas\<close>: \<open>add\<close>, \<open>requestRenderAll\<close>, \<open>renderAll\<close>, \<open>getZoom\<close>.\<close>

definition add :: "canvasObject \<Rightarrow> canvas \<Rightarrow> canvas" where
  "add obj c = c\<lparr> objects := objects c @ [obj], renderRequested := True \<rparr>"

definition requestRenderAll :: "canvas \<Rightarrow> canvas" where
  "requestRenderAll c = c\<lparr> renderRequested := True \<rparr>"

definition renderAll :: "canvas \<Rightarrow> canvas" where
  "renderAll c = c\<lparr> renderRequested := False, renderAllCalls := Suc (renderAllCalls c) \<rparr>"

definition getZoom :: "canvas \<Rightarrow> real" where
  "getZoom c = zoom c"

definition console_error :: "string \<Rightarrow> canvas \<Rightarrow> canvas" where
  "console_error msg c = c\<lparr> console := console c @ [msg] \<rparr>"

text \<open>\<open>getObjectsByType\<close> and \<open>getCanvasMarchers\<close> (all objects, not only the active ones).\<close>

definition getCanvasMarchers :: "canvas \<Rightarrow> canvasObject list" where
  "getCanvasMarchers c = filter is_CanvasMarcher (objects c)"

definition getStaticCanvasMarchers :: "canvas \<Rightarrow> canvasObject list" where
  "getStaticCanvasMarchers c = filter is_StaticCanvasMarcher (objects c)"

definition getPathways :: "canvas \<Rightarrow> canvasObject list" where
  "getPathways c = filter is_Pathway (objects c)"

text \<open>
  Modelled from the spec: the constructor \<open>new CanvasMarcher({marcher, marcherPage})\<close> is
  missing with its class. It makes a marker of the marcher at the coordinates of the
  position, under a fresh identity.
\<close>

definition new_CanvasMarcher :: "marcher \<Rightarrow> marcherPage \<Rightarrow> canvas \<Rightarrow> canvasObject \<times> canvas" where
  "new_CanvasMarcher m mp c =
     (CanvasMarcher (nextOid c) m (mp_x mp) (mp_y mp), c\<lparr> nextOid := Suc (nextOid c) \<rparr>)"

text \<open>
  Modelled from the spec: the method \<open>CanvasMarcher.setMarcherCoords\<close> is missing with its
  class. It gives the marker the coordinates of the position and leaves its marcher.
\<close>

fun moveMarker :: "marcherPage \<Rightarrow> canvasObject \<Rightarrow> canvasObject" where
  "moveMarker mp (CanvasMarcher i m _ _) = CanvasMarcher i m (mp_x mp) (mp_y mp)"
| "moveMarker mp obj = obj"

text \<open>
  Modelled from the spec: \<open>setMarcherCoords\<close> called on a marker of the canvas, which is found
  by its reference; every other object stays as it is.
\<close>

definition setMarcherCoords :: "nat \<Rightarrow> marcherPage \<Rightarrow> canvas \<Rightarrow> canvas" where
  "setMarcherCoords ref mp c =
     c\<lparr> objects := map (\<lambda>obj. if oid obj = ref then moveMarker mp obj else obj) (objects c) \<rparr>"

text \<open>
  \<open>OpenMarchCanvas.renderMarchers\<close>. The list \<open>curCanvasMarchers\<close> is read once, before the
  loop, and is not refreshed by the markers the loop adds. The body of the \<open>forEach\<close> is
  \<open>renderMarcher\<close>.
\<close>

definition renderMarcher ::
  "canvasObject list \<Rightarrow> marcher list \<Rightarrow> canvas \<Rightarrow> marcherPage \<Rightarrow> canvas" where
  "renderMarcher curCanvasMarchers allMarchers c marcherPage =
     (case find (\<lambda>canvasMarcher. m_id (marcherObj canvasMarcher) = marcher_id marcherPage)
             curCanvasMarchers of
        None \<Rightarrow>
          (case find (\<lambda>m. m_id m = marcher_id marcherPage) allMarchers of
             None \<Rightarrow>
               console_error
                 ''Marcher object not found in the store for given MarcherPage  - renderMarchers: Canvas.tsx''
                 c
           | Some curMarcher \<Rightarrow>
               (let (obj, c') = new_CanvasMarcher curMarcher marcherPage c in add obj c'))
      | Some curCanvasMarcher \<Rightarrow> setMarcherCoords (oid curCanvasMarcher) marcherPage c)"

definition renderMarchers :: "marcherPage list \<Rightarrow> marcher list \<Rightarrow> canvas \<Rightarrow> canvas" where
  "renderMarchers selectedMarcherPages allMarchers c =
     (let curCanvasMarchers = getCanvasMarchers c
      in requestRenderAll
           (foldl (renderMarcher curCanvasMarchers allMarchers) c selectedMarcherPages))"

text \<open>The identity and the marcher of every live marker, in canvas order.\<close>

definition liveMarkers :: "canvas \<Rightarrow> (nat \<times> marcher) list" where
  "liveMarkers c = map (\<lambda>obj. (oid obj, marcherObj obj)) (getCanvasMarchers c)"

text \<open>The marcher identities that have a live marker.\<close>

definition markedIds :: "canvas \<Rightarrow> int set" where
  "markedIds c = (\<lambda>p. m_id (snd p)) ` set (liveMarkers c)"


subsection \<open>The viewport\<close>

text \<open>
  The viewport transform of the library is \<open>[zoom, 0, 0, zoom, panX, panY]\<close>. Zoom, pan and
  the event's coordinates are finite numbers, and every operation of the wheel handler
  has a finite result on finite operands, so the viewport is modelled over the reals.
  \<open>worldToScreen\<close> is the library's \<open>transformPoint\<close> with the viewport transform,
  \<open>screenToWorld\<close> the same with the inverted transform, and \<open>zoomToPoint\<close> is the library's
  method of that name.
\<close>

definition worldToScreen :: "canvas \<Rightarrow> real \<times> real \<Rightarrow> real \<times> real" where
  "worldToScreen c p = (zoom c * fst p + panX c, zoom c * snd p + panY c)"

definition screenToWorld :: "canvas \<Rightarrow> real \<times> real \<Rightarrow> real \<times> real" where
  "screenToWorld c p = ((fst p - panX c) / zoom c, (snd p - panY c) / zoom c)"

definition zoomToPoint :: "real \<times> real \<Rightarrow> real \<Rightarrow> canvas \<Rightarrow> canvas" where
  "zoomToPoint point value c =
     (let before = point;
          p = screenToWorld c point;
          c1 = c\<lparr> zoom := value \<rparr>;
          after = worldToScreen c1 p
      in c1\<lparr> panX := panX c1 + (fst before - fst after),
              panY := panY c1 + (snd before - snd after) \<rparr>)"

record wheelEvent =
  deltaY :: real
  offsetX :: real
  offsetY :: real
  defaultPrevented :: bool
  propagationStopped :: bool

text \<open>
  \<open>OpenMarchCanvas.handleMouseWheel\<close>. The pending timer is replaced by one of 50
  milliseconds; \<open>zoomTimeoutCallback\<close> is the function it runs.
\<close>

definition handleMouseWheel :: "canvas \<Rightarrow> wheelEvent \<Rightarrow> canvas \<times> wheelEvent" where
  "handleMouseWheel c fabricEvent =
     (let c1 = (if \<not> staticGridObjectCaching c then c\<lparr> staticGridObjectCaching := True \<rparr> else c);
          c2 = (if \<not> staticGridObjectCaching c1 then c1\<lparr> staticGridObjectCaching := True \<rparr> else c1);
          delta = deltaY fabricEvent;
          zoom0 = getZoom c2;
          zoom1 = zoom0 * (0.999 powr delta);
          zoom2 = (if zoom1 > 25 then 25 else zoom1);
          zoom3 = (if zoom2 < 0.35 then 0.35 else zoom2);
          c3 = zoomToPoint (offsetX fabricEvent, offsetY fabricEvent) zoom3 c2;
          e1 = fabricEvent\<lparr> defaultPrevented := True \<rparr>;
          e2 = e1\<lparr> propagationStopped := True \<rparr>;
          c4 = c3\<lparr> zoomTimeout := None \<rparr>;
          c5 = c4\<lparr> zoomTimeout := Some 50 \<rparr>
      in (c5, e2))"

definition zoomTimeoutCallback :: "canvas \<Rightarrow> canvas" where
  "zoomTimeoutCallback c =
     (if staticGridObjectCaching c then renderAll (c\<lparr> staticGridObjectCaching := False \<rparr>)
      else c)"

text \<open>A sequence of wheel events, handled one after the other.\<close>

definition handleMouseWheels :: "canvas \<Rightarrow> wheelEvent list \<Rightarrow> canvas" where
  "handleMouseWheels c es = foldl (\<lambda>c e. fst (handleMouseWheel c e)) c es"

section \<open>Registered actions\<close>

subsection \<open>Strings\<close>

text \<open>
  \<open>String.prototype.toLowerCase\<close> and \<open>toUpperCase\<close> on ASCII text: the twenty-six letters
  change case and every other character stays.
\<close>

definition lowerLetters :: string where
  "lowerLetters = ''abcdefghijklmnopqrstuvwxyz''"

definition upperLetters :: string where
  "upperLetters = ''ABCDEFGHIJKLMNOPQRSTUVWXYZ''"

definition toLowerCase :: "string \<Rightarrow> string" where
  "toLowerCase s =
     map (\<lambda>ch. case map_of (zip upperLetters lowerLetters) ch of Some l \<Rightarrow> l | None \<Rightarrow> ch) s"

definition toUpperCase :: "string \<Rightarrow> string" where
  "toUpperCase s =
     map (\<lambda>ch. case map_of (zip lowerLetters upperLetters) ch of Some u \<Rightarrow> u | None \<Rightarrow> ch) s"

subsection \<open>KeyboardShortcut and RegisteredAction\<close>

record keyboardShortcut =
  key :: string
  control :: bool
  alt :: bool
  shift :: bool

text \<open>The constructor of \<open>KeyboardShortcut\<close>: the key is stored in lower case.\<close>

definition new_KeyboardShortcut :: "string \<Rightarrow> bool \<Rightarrow> bool \<Rightarrow> bool \<Rightarrow> keyboardShortcut" where
  "new_KeyboardShortcut k c a s = \<lparr> key = toLowerCase k, control = c, alt = a, shift = s \<rparr>"

text \<open>\<open>KeyboardShortcut.toString\<close>.\<close>

definition toString :: "keyboardShortcut \<Rightarrow> string" where
  "toString sc =
     (let keyStr = (if key sc = '' '' then ''Space'' else toUpperCase (key sc))
      in (if control sc then ''Ctrl + '' else '''')
         @ (if alt sc then ''Alt + '' else '''')
         @ (if shift sc then ''Shift + '' else '''')
         @ keyStr)"

record registeredAction =
  keyboardShortcut :: "keyboardShortcut option"
  desc :: string
  instructionalString :: string
  instructionalStringToggleOn :: string
  instructionalStringToggleOff :: string

text \<open>
  The constructor of \<open>RegisteredAction\<close>. An optional argument left out is \<open>None\<close>; an empty
  string is falsy, as a missing one is.
\<close>

definition new_RegisteredAction ::
  "keyboardShortcut option \<Rightarrow> string \<Rightarrow> string option \<Rightarrow> string option \<Rightarrow> registeredAction" where
  "new_RegisteredAction ks d toggleOnStr toggleOffStr =
     (let keyString = (case ks of Some k \<Rightarrow> '' ['' @ toString k @ '']'' | None \<Rightarrow> '''');
          instr = d @ keyString
      in \<lparr> keyboardShortcut = ks,
           desc = d,
           instructionalString = instr,
           instructionalStringToggleOn =
             (case toggleOnStr of
                Some t \<Rightarrow> (if t = '''' then instr else t @ keyString)
              | None \<Rightarrow> instr),
           instructionalStringToggleOff =
             (case toggleOffStr of
                Some t \<Rightarrow> (if t = '''' then instr else t @ keyString)
              | None \<Rightarrow> instr) \<rparr>)"

datatype RegisteredActionsEnum =
    nextPage | lastPage | previousPage | firstPage | playPause
  | setAllMarchersToPreviousPage | setSelectedMarcherToPreviousPage
  | snapToNearestWhole | lockX | lockY
  | toggleNextPagePaths | togglePreviousPagePaths

text \<open>\<open>Object.values(RegisteredActionsEnum)\<close>: the members in the order of their declaration.\<close>

definition RegisteredActionsEnum_values :: "RegisteredActionsEnum list" where
  "RegisteredActionsEnum_values =
     [nextPage, lastPage, previousPage, firstPage, playPause,
      setAllMarchersToPreviousPage, setSelectedMarcherToPreviousPage,
      snapToNearestWhole, lockX, lockY, toggleNextPagePaths, togglePreviousPagePaths]"

fun RegisteredActionsObjects :: "RegisteredActionsEnum \<Rightarrow> registeredAction" where
  "RegisteredActionsObjects nextPage =
     new_RegisteredAction (Some (new_KeyboardShortcut ''e'' False False False))
       ''Next page'' None None"
| "RegisteredActionsObjects lastPage =
     new_RegisteredAction (Some (new_KeyboardShortcut ''e'' False False True))
       ''Last page'' None None"
| "RegisteredActionsObjects previousPage =
     new_RegisteredAction (Some (new_KeyboardShortcut ''q'' False False False))
       ''Previous page'' None None"
| "RegisteredActionsObjects firstPage =
     new_RegisteredAction (Some (new_KeyboardShortcut ''q'' False False True))
       ''First page'' None None"
| "RegisteredActionsObjects playPause =
     new_RegisteredAction (Some (new_KeyboardShortcut '' '' False False False))
       ''Play or pause'' (Some ''Play'') (Some ''Pause'')"
| "RegisteredActionsObjects setAllMarchersToPreviousPage =
     new_RegisteredAction (Some (new_KeyboardShortcut ''p'' True False True))
       ''Set all marcher coordinates to previous page'' None None"
| "RegisteredActionsObjects setSelectedMarcherToPreviousPage =
     new_RegisteredAction (Some (new_KeyboardShortcut ''p'' False False True))
       ''Set selected marcher coordinates to previous page'' None None"
| "RegisteredActionsObjects snapToNearestWhole =
     new_RegisteredAction (Some (new_KeyboardShortcut ''1'' False False False))
       ''Snap to nearest whole'' None None"
| "RegisteredActionsObjects lockX =
     new_RegisteredAction (Some (new_KeyboardShortcut ''z'' False False False))
       ''Lock X axis'' (Some ''Lock X movement'') (Some ''Enable X movement'')"
| "RegisteredActionsObjects lockY =
     new_RegisteredAction (Some (new_KeyboardShortcut ''x'' False False False))
       ''Lock Y axis'' (Some ''Lock Y movement'') (Some ''Enable Y movement'')"
| "RegisteredActionsObjects togglePreviousPagePaths =
     new_RegisteredAction (Some (new_KeyboardShortcut ''n'' False False False))
       ''Toggle viewing previous page paths''
       (Some ''Show previous page dots/paths'') (Some ''Hide previous page dots/paths'')"
| "RegisteredActionsObjects toggleNextPagePaths =
     new_RegisteredAction (Some (new_KeyboardShortcut ''m'' False False False))
       ''Toggle viewing next page paths''
       (Some ''Show next page dots/paths'') (Some ''Hide next page dots/paths'')"

subsection \<open>The state the handler reads and writes\<close>

record uiSettings =
  ui_lockX :: bool
  ui_lockY :: bool
  previousPaths :: bool
  nextPaths :: bool

text \<open>
  The stores and contexts of \<open>RegisteredActionsHandler\<close>, with two logs of what leaves the
  component: the messages given to \<open>console.error\<close>, and the argument of every call of
  \<open>MarcherPage.updateMarcherPages\<close>, which hands a list of position patches to the
  persistence layer.
\<close>

record appState =
  pages :: "page list"
  marcherPages :: "marcherPage list"
  selectedPage :: "page option"
  selectedMarchers :: "marcher list"
  fieldProperties :: "fieldProperties option"
  isPlaying :: bool
  uiSettings :: uiSettings
  consoleErrors :: "string list"
  updateMarcherPagesCalls :: "marcherPage list list"

definition console_error_app :: "string \<Rightarrow> appState \<Rightarrow> appState" where
  "console_error_app msg st = st\<lparr> consoleErrors := consoleErrors st @ [msg] \<rparr>"

definition updateMarcherPages :: "marcherPage list \<Rightarrow> appState \<Rightarrow> appState" where
  "updateMarcherPages changes st =
     st\<lparr> updateMarcherPagesCalls := updateMarcherPagesCalls st @ [changes] \<rparr>"

definition setSelectedPage :: "page \<Rightarrow> appState \<Rightarrow> appState" where
  "setSelectedPage p st = st\<lparr> selectedPage := Some p \<rparr>"

definition setIsPlaying :: "bool \<Rightarrow> appState \<Rightarrow> appState" where
  "setIsPlaying b st = st\<lparr> isPlaying := b \<rparr>"

definition setUiSettings :: "uiSettings \<Rightarrow> appState \<Rightarrow> appState" where
  "setUiSettings u st = st\<lparr> uiSettings := u \<rparr>"

text \<open>An exception thrown by the run time.\<close>

datatype exn = TypeError string

text \<open>
  The class \<open>Page\<close> is imported by the handler and its file is missing; its four static
  methods of navigation are modelled from the specification's page: pages are totally
  ordered by their sequence index.
\<close>

text \<open>
  Modelled from the spec: a helper for the missing methods of \<open>Page\<close>, the page of least
  sequence index in a list, if the list has a page.
\<close>

definition pageOfLeastOrder :: "page list \<Rightarrow> page option" where
  "pageOfLeastOrder ps =
     (case ps of
        [] \<Rightarrow> None
      | p # qs \<Rightarrow> Some (fold (\<lambda>q best. if pg_order q < pg_order best then q else best) qs p))"

text \<open>
  Modelled from the spec: a helper for the missing methods of \<open>Page\<close>, the page of greatest
  sequence index in a list, if the list has a page.
\<close>

definition pageOfGreatestOrder :: "page list \<Rightarrow> page option" where
  "pageOfGreatestOrder ps =
     (case ps of
        [] \<Rightarrow> None
      | p # qs \<Rightarrow> Some (fold (\<lambda>q best. if pg_order q > pg_order best then q else best) qs p))"

text \<open>
  Modelled from the spec: \<open>Page.getPreviousPage\<close> is missing. The previous page is the page
  of greatest sequence index below the current page's; the first page has none.
\<close>

definition getPreviousPage :: "page \<Rightarrow> page list \<Rightarrow> page option" where
  "getPreviousPage cur ps = pageOfGreatestOrder (filter (\<lambda>p. pg_order p < pg_order cur) ps)"

text \<open>
  Modelled from the spec: \<open>Page.getNextPage\<close> is missing. The next page is the page of least
  sequence index above the current page's; the last page has none.
\<close>

definition getNextPage :: "page \<Rightarrow> page list \<Rightarrow> page option" where
  "getNextPage cur ps = pageOfLeastOrder (filter (\<lambda>p. pg_order p > pg_order cur) ps)"

text \<open>Modelled from the spec: \<open>Page.getFirstPage\<close> is missing. The page of least sequence index.\<close>

definition getFirstPage :: "page list \<Rightarrow> page option" where
  "getFirstPage ps = pageOfLeastOrder ps"

text \<open>Modelled from the spec: \<open>Page.getLastPage\<close> is missing. The page of greatest sequence index.\<close>

definition getLastPage :: "page list \<Rightarrow> page option" where
  "getLastPage ps = pageOfGreatestOrder ps"

text \<open>
  \<open>getRoundCoordinates\<close> is imported from \<open>CoordinateActions\<close>, whose file is missing; the
  handler takes it as a parameter. Its arguments are the positions (an entry is \<open>None\<close> where the
  caller passed \<open>undefined\<close>), the field properties, the denominator and the two axis flags;
  it returns the rounded positions or throws.
\<close>

type_synonym roundCoordinates =
  "marcherPage option list \<Rightarrow> fieldProperties \<Rightarrow> real \<Rightarrow> bool \<Rightarrow> bool \<Rightarrow> exn + marcherPage list"

subsection \<open>The handler\<close>

text \<open>
  \<open>getSelectedMarcherPages\<close>. The result of \<open>find\<close> is pushed under a non-null assertion,
  which the run time does not check: a selected marcher with no position on the selected
  page contributes \<open>undefined\<close>.
\<close>

definition getSelectedMarcherPages :: "appState \<Rightarrow> marcherPage option list \<times> appState" where
  "getSelectedMarcherPages st =
     (case selectedPage st of
        None \<Rightarrow> ([], console_error_app ''No selected page'' st)
      | Some sp \<Rightarrow>
          (let selectedPageMarcherPages = filter (\<lambda>mp. page_id mp = pg_id sp) (marcherPages st)
           in (map (\<lambda>m. find (\<lambda>mp. marcher_id mp = m_id m) selectedPageMarcherPages)
                 (selectedMarchers st),
               st)))"

text \<open>\<open>Array.prototype.find\<close> with a callback that may throw: the exception leaves the search.\<close>

fun find_throwing :: "('a \<Rightarrow> exn + bool) \<Rightarrow> 'a list \<Rightarrow> exn + 'a option" where
  "find_throwing P [] = Inr None"
| "find_throwing P (x # xs) =
     (case P x of
        Inl e \<Rightarrow> Inl e
      | Inr b \<Rightarrow> (if b then Inr (Some x) else find_throwing P xs))"

text \<open>\<open>marcherPage.page_id === previousPage?.id\<close>: false when there is no previous page.\<close>

definition onPage :: "page option \<Rightarrow> marcherPage \<Rightarrow> bool" where
  "onPage pg mp = (case pg of None \<Rightarrow> False | Some p \<Rightarrow> page_id mp = pg_id p)"

text \<open>
  \<open>triggerAction\<close>. The \<open>default\<close> branch of the \<open>switch\<close> has no counterpart: the twelve
  cases cover the enumeration. In the callback of the \<open>find\<close> of
  \<open>setSelectedMarcherToPreviousPage\<close> the right operand of \<open>&&\<close> reads \<open>selectedMarchers[0].id\<close>,
  and reading a property of \<open>undefined\<close> throws a \<open>TypeError\<close>.
\<close>

definition triggerAction ::
  "roundCoordinates \<Rightarrow> appState \<Rightarrow> RegisteredActionsEnum \<Rightarrow> exn + appState" where
  "triggerAction getRoundCoordinates st action =
     (case selectedPage st of
        None \<Rightarrow> Inr (console_error_app ''No selected page'' st)
      | Some selPage \<Rightarrow>
     (case fieldProperties st of
        None \<Rightarrow> Inr (console_error_app ''No field properties'' st)
      | Some fp \<Rightarrow>
     (case action of
        nextPage \<Rightarrow>
          (case getNextPage selPage (pages st) of
             Some p \<Rightarrow> Inr (setSelectedPage p st) | None \<Rightarrow> Inr st)
      | lastPage \<Rightarrow>
          (case getLastPage (pages st) of
             Some p \<Rightarrow> Inr (setSelectedPage p st) | None \<Rightarrow> Inr st)
      | previousPage \<Rightarrow>
          (case getPreviousPage selPage (pages st) of
             Some p \<Rightarrow> Inr (setSelectedPage p st) | None \<Rightarrow> Inr st)
      | firstPage \<Rightarrow>
          (case getFirstPage (pages st) of
             Some p \<Rightarrow> Inr (setSelectedPage p st) | None \<Rightarrow> Inr st)
      | playPause \<Rightarrow> Inr (setIsPlaying (\<not> isPlaying st) st)
      | setAllMarchersToPreviousPage \<Rightarrow>
          (let prevPage = getPreviousPage selPage (pages st);
               previousPageMarcherPages = filter (onPage prevPage) (marcherPages st);
               changes = map (\<lambda>mp. mp\<lparr> page_id := pg_id selPage \<rparr>) previousPageMarcherPages
           in Inr (updateMarcherPages changes st))
      | setSelectedMarcherToPreviousPage \<Rightarrow>
          (let prevPage = getPreviousPage selPage (pages st)
           in case find_throwing
                     (\<lambda>mp. if onPage prevPage mp
                           then (case selectedMarchers st of
                                   [] \<Rightarrow> Inl (TypeError ''Cannot read properties of undefined (reading 'id')'')
                                 | m # _ \<Rightarrow> Inr (marcher_id mp = m_id m))
                           else Inr False)
                     (marcherPages st) of
                Inl e \<Rightarrow> Inl e
              | Inr None \<Rightarrow> Inr st
              | Inr (Some previousMarcherPage) \<Rightarrow>
                  Inr (updateMarcherPages [previousMarcherPage\<lparr> page_id := pg_id selPage \<rparr>] st))
      | snapToNearestWhole \<Rightarrow>
          (let (selected, st1) = getSelectedMarcherPages st
           in case getRoundCoordinates selected fp 1
                     (\<not> ui_lockX (uiSettings st)) (\<not> ui_lockY (uiSettings st)) of
                Inl e \<Rightarrow> Inl e
              | Inr roundedCoords \<Rightarrow> Inr (updateMarcherPages roundedCoords st1))
      | lockX \<Rightarrow>
          Inr (setUiSettings ((uiSettings st)\<lparr> ui_lockX := \<not> ui_lockX (uiSettings st) \<rparr>) st)
      | lockY \<Rightarrow>
          Inr (setUiSettings ((uiSettings st)\<lparr> ui_lockY := \<not> ui_lockY (uiSettings st) \<rparr>) st)
      | toggleNextPagePaths \<Rightarrow>
          Inr (setUiSettings ((uiSettings st)\<lparr> nextPaths := \<not> nextPaths (uiSettings st) \<rparr>) st)
      | togglePreviousPagePaths \<Rightarrow>
          Inr (setUiSettings
                 ((uiSettings st)\<lparr> previousPaths := \<not> previousPaths (uiSettings st) \<rparr>) st))))"

text \<open>
  The dictionary built once from the registered actions: \<open>Object.fromEntries\<close> over the
  pairs of a shortcut's text (the empty text for an action without shortcut) and the
  action, a later pair replacing an earlier one of the same text.
\<close>

definition keyboardShortcutEntries :: "(string \<times> RegisteredActionsEnum) list" where
  "keyboardShortcutEntries =
     map (\<lambda>action.
            (case keyboardShortcut (RegisteredActionsObjects action) of
               Some k \<Rightarrow> toString k
             | None \<Rightarrow> '''',
             action))
       RegisteredActionsEnum_values"

definition fromEntries :: "('k \<times> 'v) list \<Rightarrow> ('k \<rightharpoonup> 'v)" where
  "fromEntries es = foldl (\<lambda>m (k, v). m(k \<mapsto> v)) Map.empty es"

definition keyboardShortcutDictionary :: "string \<rightharpoonup> RegisteredActionsEnum" where
  "keyboardShortcutDictionary = fromEntries keyboardShortcutEntries"

text \<open>
  The focused element and the key event. \<open>matches_editable\<close> is
  \<open>matches("input, textarea, select, [contenteditable]")\<close>.
\<close>

record element =
  tagName :: string
  hasContentEditable :: bool

definition matches_editable :: "element \<Rightarrow> bool" where
  "matches_editable el =
     (tagName el = ''input'' \<or> tagName el = ''textarea'' \<or> tagName el = ''select''
      \<or> hasContentEditable el)"

record keyboardEvent =
  ev_key :: string
  ctrlKey :: bool
  metaKey :: bool
  altKey :: bool
  shiftKey :: bool

text \<open>
  \<open>handleKeyDown\<close>. The result is what the handler leaves behind: the state, or the
  exception that left \<open>triggerAction\<close>, and whether \<open>preventDefault\<close> was called on the
  event. The call of \<open>preventDefault\<close> follows the call of \<open>triggerAction\<close>.
\<close>

definition handleKeyDown ::
  "roundCoordinates \<Rightarrow> appState \<Rightarrow> element option \<Rightarrow> keyboardEvent \<Rightarrow> (exn + appState) \<times> bool" where
  "handleKeyDown getRoundCoordinates st activeElement e =
     (if \<not> (case activeElement of None \<Rightarrow> False | Some el \<Rightarrow> matches_editable el)
      then
        (let keyboardAction =
               new_KeyboardShortcut (ev_key e) (ctrlKey e \<or> metaKey e) (altKey e) (shiftKey e);
             keyString = toString keyboardAction
         in case keyboardShortcutDictionary keyString of
              Some action \<Rightarrow>
                (case triggerAction getRoundCoordinates st action of
                   Inl ex \<Rightarrow> (Inl ex, False)
                 | Inr st' \<Rightarrow> (Inr st', True))
            | None \<Rightarrow> (Inr st, False))
      else (Inr st, False))"

section \<open>Reference definitions from the specification\<close>

text \<open>The clamp of the specification's zoom rule.\<close>

definition clamp :: "real \<Rightarrow> real \<Rightarrow> real \<Rightarrow> real" where
  "clamp v lo hi = max lo (min hi v)"

section \<open>Example inputs\<close>

text \<open>A field of ten pixels to the step, and a second page of one count.\<close>

definition ex_fp :: fieldProperties where
  "ex_fp = \<lparr> pixelsPerStep = 10 \<rparr>"

definition ex_page :: page where
  "ex_page = \<lparr> pg_id = 2, pg_order = 1, counts = 1, pg_name = ''2'' \<rparr>"


text \<open>
  Two marchers moving from page 1 to page 2 in one count: the first covers two steps (4 to 5),
  the second one step (8 to 5).
\<close>

definition ex_marchers :: "marcher list" where
  "ex_marchers = [\<lparr> m_id = 1, drill_number = ''B1'' \<rparr>, \<lparr> m_id = 2, drill_number = ''B2'' \<rparr>]"

definition ex_marcherPages :: "marcherPage list" where
  "ex_marcherPages =
     [\<lparr> mp_id = 1, marcher_id = 1, page_id = 1, mp_x = 0, mp_y = 0 \<rparr>,
      \<lparr> mp_id = 2, marcher_id = 2, page_id = 1, mp_x = 0, mp_y = 0 \<rparr>,
      \<lparr> mp_id = 3, marcher_id = 1, page_id = 2, mp_x = 0, mp_y = 20 \<rparr>,
      \<lparr> mp_id = 4, marcher_id = 2, page_id = 2, mp_x = 0, mp_y = 10 \<rparr>]"

definition ex_step4 :: stepSize where
  "ex_step4 = \<lparr> stepsPerFiveYards = Fin 4, ss_marcher_id = 1 \<rparr>"

definition ex_step8 :: stepSize where
  "ex_step8 = \<lparr> stepsPerFiveYards = Fin 8, ss_marcher_id = 2 \<rparr>"


text \<open>
  The same positions with the second page stored under identity 3: it still follows page 1
  in the sequence order, and no page has identity 2.
\<close>

definition ex_gap_page :: page where
  "ex_gap_page = \<lparr> pg_id = 3, pg_order = 1, counts = 1, pg_name = ''2'' \<rparr>"

definition ex_gap_marcherPages :: "marcherPage list" where
  "ex_gap_marcherPages =
     [\<lparr> mp_id = 1, marcher_id = 1, page_id = 1, mp_x = 0, mp_y = 0 \<rparr>,
      \<lparr> mp_id = 2, marcher_id = 2, page_id = 1, mp_x = 0, mp_y = 0 \<rparr>,
      \<lparr> mp_id = 5, marcher_id = 1, page_id = 3, mp_x = 0, mp_y = 20 \<rparr>,
      \<lparr> mp_id = 6, marcher_id = 2, page_id = 3, mp_x = 0, mp_y = 10 \<rparr>]"


text \<open>A canvas holding the field grid only, at zoom 1, and a wheel event at a cursor position.\<close>

definition ex_canvas :: canvas where
  "ex_canvas = \<lparr> objects = [FieldGrid 0], nextOid = 1, renderRequested = False,
     renderAllCalls = 1, console = [], zoom = 1, panX = 0, panY = 0,
     staticGridObjectCaching = True, zoomTimeout = None \<rparr>"

definition ex_wheel :: "real \<Rightarrow> wheelEvent" where
  "ex_wheel d = \<lparr> deltaY = d, offsetX = 100, offsetY = 50, defaultPrevented = False,
     propagationStopped = False \<rparr>"


text \<open>
  A drill of two pages, the second selected, with the positions of the two marchers above
  and no marcher selected; a key event for Shift and P; the canvas element as the focused
  element; and fifty marchers with a position on each of the two pages.
\<close>

definition ex_page1 :: page where
  "ex_page1 = \<lparr> pg_id = 1, pg_order = 0, counts = 0, pg_name = ''1'' \<rparr>"

definition ex_uiSettings :: uiSettings where
  "ex_uiSettings = \<lparr> ui_lockX = False, ui_lockY = False, previousPaths = True, nextPaths = False \<rparr>"

definition ex_state :: appState where
  "ex_state = \<lparr> pages = [ex_page1, ex_page], marcherPages = ex_marcherPages,
     selectedPage = Some ex_page, selectedMarchers = [], fieldProperties = Some ex_fp,
     isPlaying = False, uiSettings = ex_uiSettings, consoleErrors = [],
     updateMarcherPagesCalls = [] \<rparr>"

definition ex_roundCoordinates :: roundCoordinates where
  "ex_roundCoordinates selected fp denominator xAxis yAxis = Inr []"

definition ex_shift_p :: keyboardEvent where
  "ex_shift_p = \<lparr> ev_key = ''P'', ctrlKey = False, metaKey = False, altKey = False,
     shiftKey = True \<rparr>"

definition ex_focus_canvas :: element where
  "ex_focus_canvas = \<lparr> tagName = ''canvas'', hasContentEditable = False \<rparr>"

definition ex_fifty :: "marcherPage list" where
  "ex_fifty =
     map (\<lambda>i. \<lparr> mp_id = i, marcher_id = i, page_id = 1, mp_x = real_of_int i, mp_y = 0 \<rparr>) [1..50]
     @ map (\<lambda>i. \<lparr> mp_id = 50 + i, marcher_id = i, page_id = 2, mp_x = 0, mp_y = real_of_int i \<rparr>) [1..50]"


text \<open>
  A canvas with the grid and a marker of a marcher 7, and the positions given to
  \<open>renderMarchers\<close>: marchers 1 and 2, marcher 2 a second time, and a marcher 9 that is
  not in the list of marchers. Marcher 7 has no position.
\<close>

definition ex_canvas_marked :: canvas where
  "ex_canvas_marked =
     ex_canvas\<lparr> objects := [FieldGrid 0, CanvasMarcher 1 \<lparr> m_id = 7, drill_number = ''T7'' \<rparr> 5 5],
                nextOid := 2 \<rparr>"

definition ex_positions :: "marcherPage list" where
  "ex_positions =
     [\<lparr> mp_id = 3, marcher_id = 1, page_id = 2, mp_x = 0, mp_y = 20 \<rparr>,
      \<lparr> mp_id = 4, marcher_id = 2, page_id = 2, mp_x = 0, mp_y = 10 \<rparr>,
      \<lparr> mp_id = 8, marcher_id = 2, page_id = 2, mp_x = 3, mp_y = 4 \<rparr>,
      \<lparr> mp_id = 9, marcher_id = 9, page_id = 2, mp_x = 1, mp_y = 1 \<rparr>]"


section \<open>The comparator and the minimum and maximum step sizes\<close>

lemma compare_positive_iff:
  "num_gt (compare a b) (Fin 0) \<longleftrightarrow> num_lt (stepsPerFiveYards a) (stepsPerFiveYards b)"
  by (cases "stepsPerFiveYards a"; cases "stepsPerFiveYards b")
     (simp_all add: compare_def num_sub_def num_gt_def)

lemma sortCompare_positive_iff:
  "num_gt (sortCompare compare a b) (Fin 0) \<longleftrightarrow>
     num_lt (stepsPerFiveYards a) (stepsPerFiveYards b)"
proof -
  have "num_gt (sortCompare compare a b) (Fin 0) \<longleftrightarrow> num_gt (compare a b) (Fin 0)"
    by (cases "compare a b") (simp_all add: sortCompare_def isNaN_def num_gt_def)
  then show ?thesis by (simp add: compare_positive_iff)
qed

lemma set_sort_insert: "set (sort_insert c a bs) = insert a (set bs)"
  by (induction bs) auto

lemma set_array_sort: "set (array_sort c xs) = set xs"
  by (induction xs) (simp_all add: array_sort_def set_sort_insert)

lemma length_sort_insert: "length (sort_insert c a bs) = Suc (length bs)"
  by (induction bs) auto

lemma length_array_sort: "length (array_sort c xs) = length xs"
  by (induction xs) (simp_all add: array_sort_def length_sort_insert)

text \<open>Sortedness, for a comparator that is a total preorder on the elements sorted.\<close>

lemma sorted_sort_insert:
  assumes tot: "\<And>x y. x \<in> A \<Longrightarrow> y \<in> A \<Longrightarrow> le x y \<or> le y x"
    and tr: "\<And>x y z. x \<in> A \<Longrightarrow> y \<in> A \<Longrightarrow> z \<in> A \<Longrightarrow> le x y \<Longrightarrow> le y z \<Longrightarrow> le x z"
    and le: "\<And>x y. le x y \<longleftrightarrow> \<not> num_gt (sortCompare c x y) (Fin 0)"
    and "a \<in> A" "set bs \<subseteq> A" "sorted_wrt le bs"
  shows "sorted_wrt le (sort_insert c a bs)"
  using assms(4-)
proof (induction bs)
  case Nil
  then show ?case by simp
next
  case (Cons b bs)
  show ?case
  proof (cases "num_gt (sortCompare c a b) (Fin 0)")
    case True
    then have "le b a" using tot [of a b] le Cons.prems by auto
    then show ?thesis
      using True Cons by (auto simp: set_sort_insert)
  next
    case False
    then have ab: "le a b" using le by simp
    have "\<forall>y\<in>set bs. le a y"
      using ab Cons.prems tr [of a b] by auto
    then show ?thesis using False ab Cons.prems by simp
  qed
qed

lemma sorted_array_sort:
  assumes tot: "\<And>x y. x \<in> A \<Longrightarrow> y \<in> A \<Longrightarrow> le x y \<or> le y x"
    and tr: "\<And>x y z. x \<in> A \<Longrightarrow> y \<in> A \<Longrightarrow> z \<in> A \<Longrightarrow> le x y \<Longrightarrow> le y z \<Longrightarrow> le x z"
    and le: "\<And>x y. le x y \<longleftrightarrow> \<not> num_gt (sortCompare c x y) (Fin 0)"
    and "set xs \<subseteq> A"
  shows "sorted_wrt le (array_sort c xs)"
  using assms(4)
proof (induction xs)
  case Nil
  then show ?case by (simp add: array_sort_def)
next
  case (Cons x xs)
  have "sorted_wrt le (sort_insert c x (array_sort c xs))"
    by (rule sorted_sort_insert [where A = A, OF tot tr le])
       (use Cons in \<open>auto simp: set_array_sort\<close>)
  then show ?case by (simp add: array_sort_def)
qed

lemma sorted_wrt_first_last:
  assumes "sorted_wrt le xs" "xs \<noteq> []" "\<And>x. x \<in> set xs \<Longrightarrow> le x x" "s \<in> set xs"
  shows "le (xs ! 0) s" "le s (xs ! (length xs - 1))"
proof -
  obtain i where i: "i < length xs" "s = xs ! i"
    using assms(4) by (auto simp: in_set_conv_nth)
  show "le (xs ! 0) s"
  proof (cases "i = 0")
    case True
    then show ?thesis using assms(3,4) i by simp
  next
    case False
    then show ?thesis using assms(1) i sorted_wrt_nth_less [of le xs 0 i] by simp
  qed
  show "le s (xs ! (length xs - 1))"
  proof (cases "i = length xs - 1")
    case True
    then show ?thesis using assms(3,4) i by simp
  next
    case False
    then have "i < length xs - 1" using i by simp
    then show ?thesis using assms(1) i sorted_wrt_nth_less [of le xs i "length xs - 1"] by simp
  qed
qed

text \<open>The values computed for one page: all \<open>NaN\<close> when the page has no counts, none otherwise.\<close>

lemma calculateStepSize_NaN_iff:
  "calculateStepSize (Fin sx) (Fin sy) (Fin ex) (Fin ey) (Fin cnts) (Fin pps) = NaN
     \<longleftrightarrow> cnts = 0"
proof -
  have nn: "\<not> (ex - sx)\<^sup>2 + (ey - sy)\<^sup>2 < 0"
    by (simp add: not_less)
  show ?thesis
    using nn
    by (auto simp: calculateStepSize_def num_sub_def Let_def INCHES_PER_YARD_def signed_inf_def)
qed

lemma set_map_filter_iff: "y \<in> set (List.map_filter f xs) \<longleftrightarrow> (\<exists>x\<in>set xs. f x = Some y)"
  by (induction xs) (auto simp: map_filter_simps split: option.splits)

lemma createStepSizes_NaN:
  assumes "s \<in> set (createStepSizesForMarchers marchers mps pg fp)"
  shows "stepsPerFiveYards s = NaN \<longleftrightarrow> counts pg = 0"
  using assms
  by (auto simp: createStepSizesForMarchers_def set_map_filter_iff createStepSizeForMarcher_def
      new_StepSize_def calculateStepSize_NaN_iff Let_def split: option.splits)

lemma num_lt_trans_neg:
  assumes "a \<noteq> NaN" "b \<noteq> NaN" "c \<noteq> NaN" "\<not> num_lt a b" "\<not> num_lt b c"
  shows "\<not> num_lt a c"
  using assms by (cases a; cases b; cases c) auto

lemma num_lt_total_neg: "\<not> num_lt a b \<or> \<not> num_lt b a"
  by (cases a; cases b) auto

text \<open>
  Claim C3. \<open>StepSize.compare a b\<close> is positive exactly when \<open>a\<close> has fewer steps per
  five yards than \<open>b\<close>, the physically larger step. Of the step sizes computed for the
  marchers of a page, \<open>getMinAndMaxStepSizesForMarchers\<close> returns as \<open>min\<close> a least and as
  \<open>max\<close> a greatest element under this comparator: no element is below \<open>min\<close> and none is
  above \<open>max\<close>, so \<open>min\<close> has the greatest number of steps per five yards and \<open>max\<close> the
  least. Both are undefined when no step size is computed.
\<close>

theorem getMinAndMax_least_greatest:
  "(num_gt (compare a b) (Fin 0) \<longleftrightarrow> num_lt (stepsPerFiveYards a) (stepsPerFiveYards b))
   \<and> (createStepSizesForMarchers marchers mps pg fp = [] \<longrightarrow>
        getMinAndMaxStepSizesForMarchers marchers mps pg fp
          = \<lparr> min_step = None, max_step = None \<rparr>)
   \<and> (createStepSizesForMarchers marchers mps pg fp \<noteq> [] \<longrightarrow>
        (\<exists>mn mx.
           getMinAndMaxStepSizesForMarchers marchers mps pg fp
             = \<lparr> min_step = Some mn, max_step = Some mx \<rparr>
           \<and> mn \<in> set (createStepSizesForMarchers marchers mps pg fp)
           \<and> mx \<in> set (createStepSizesForMarchers marchers mps pg fp)
           \<and> (\<forall>s \<in> set (createStepSizesForMarchers marchers mps pg fp).
                 \<not> num_gt (compare mn s) (Fin 0) \<and> \<not> num_gt (compare s mx) (Fin 0)
                 \<and> \<not> num_lt (stepsPerFiveYards mn) (stepsPerFiveYards s)
                 \<and> \<not> num_lt (stepsPerFiveYards s) (stepsPerFiveYards mx))))"
proof (intro conjI impI)
  show "num_gt (compare a b) (Fin 0) \<longleftrightarrow> num_lt (stepsPerFiveYards a) (stepsPerFiveYards b)"
    by (rule compare_positive_iff)
next
  assume "createStepSizesForMarchers marchers mps pg fp = []"
  then show "getMinAndMaxStepSizesForMarchers marchers mps pg fp
      = \<lparr> min_step = None, max_step = None \<rparr>"
    by (simp add: getMinAndMaxStepSizesForMarchers_def array_sort_def)
next
  let ?L = "createStepSizesForMarchers marchers mps pg fp"
  let ?S = "array_sort (\<lambda>o1 o2. compare o1 o2) ?L"
  define le :: "stepSize \<Rightarrow> stepSize \<Rightarrow> bool"
    where "le x y \<longleftrightarrow> \<not> num_lt (stepsPerFiveYards x) (stepsPerFiveYards y)" for x y
  assume ne: "?L \<noteq> []"
  then have sne: "?S \<noteq> []"
    using length_array_sort [of "\<lambda>o1 o2. compare o1 o2" ?L] by auto
  have tot: "\<And>x y. x \<in> set ?L \<Longrightarrow> y \<in> set ?L \<Longrightarrow> le x y \<or> le y x"
    using num_lt_total_neg by (simp add: le_def)
  have tr: "\<And>x y z. x \<in> set ?L \<Longrightarrow> y \<in> set ?L \<Longrightarrow> z \<in> set ?L \<Longrightarrow> le x y \<Longrightarrow> le y z \<Longrightarrow> le x z"
  proof -
    fix x y z
    assume m: "x \<in> set ?L" "y \<in> set ?L" "z \<in> set ?L" and l: "le x y" "le y z"
    show "le x z"
    proof (cases "counts pg = 0")
      case True
      then have "stepsPerFiveYards x = NaN" using createStepSizes_NaN m(1) by blast
      then show ?thesis by (simp add: le_def)
    next
      case False
      then have "stepsPerFiveYards x \<noteq> NaN" "stepsPerFiveYards y \<noteq> NaN"
        "stepsPerFiveYards z \<noteq> NaN"
        using createStepSizes_NaN m by blast+
      then show ?thesis using l num_lt_trans_neg unfolding le_def by blast
    qed
  qed
  have le: "\<And>x y. le x y \<longleftrightarrow> \<not> num_gt (sortCompare (\<lambda>o1 o2. compare o1 o2) x y) (Fin 0)"
    using sortCompare_positive_iff by (simp add: le_def)
  have sorted: "sorted_wrt le ?S"
    by (rule sorted_array_sort [where A = "set ?L", OF tot tr le]) simp_all
  have refl: "\<And>x. x \<in> set ?S \<Longrightarrow> le x x"
    using num_lt_total_neg by (auto simp: le_def)
  have first: "\<And>s. s \<in> set ?L \<Longrightarrow> le (?S ! 0) s"
    and last: "\<And>s. s \<in> set ?L \<Longrightarrow> le s (?S ! (length ?S - 1))"
    using sorted_wrt_first_last [OF sorted sne refl] by (simp_all add: set_array_sort)
  have r: "getMinAndMaxStepSizesForMarchers marchers mps pg fp
     = \<lparr> min_step = Some (?S ! 0), max_step = Some (?S ! (length ?S - 1)) \<rparr>"
    using sne by (simp add: getMinAndMaxStepSizesForMarchers_def Let_def)
  have m0: "?S ! 0 \<in> set ?L" and m1: "?S ! (length ?S - 1) \<in> set ?L"
    using sne nth_mem [of 0 ?S] nth_mem [of "length ?S - 1" ?S]
    by (simp_all add: set_array_sort)
  have "\<forall>s \<in> set ?L.
           \<not> num_gt (compare (?S ! 0) s) (Fin 0)
         \<and> \<not> num_gt (compare s (?S ! (length ?S - 1))) (Fin 0)
         \<and> \<not> num_lt (stepsPerFiveYards (?S ! 0)) (stepsPerFiveYards s)
         \<and> \<not> num_lt (stepsPerFiveYards s) (stepsPerFiveYards (?S ! (length ?S - 1)))"
    using first last by (simp add: le_def compare_positive_iff)
  with r m0 m1 show "\<exists>mn mx.
           getMinAndMaxStepSizesForMarchers marchers mps pg fp
             = \<lparr> min_step = Some mn, max_step = Some mx \<rparr>
           \<and> mn \<in> set ?L \<and> mx \<in> set ?L
           \<and> (\<forall>s \<in> set ?L.
                 \<not> num_gt (compare mn s) (Fin 0) \<and> \<not> num_gt (compare s mx) (Fin 0)
                 \<and> \<not> num_lt (stepsPerFiveYards mn) (stepsPerFiveYards s)
                 \<and> \<not> num_lt (stepsPerFiveYards s) (stepsPerFiveYards mx))"
    by blast
qed

lemma sqrt_100: "sqrt 100 = 10"
  using real_sqrt_abs [of 10] by simp

lemma sqrt_400: "sqrt 400 = 20"
  using real_sqrt_abs [of 20] by simp

lemma ex_createStepSizes:
  "createStepSizesForMarchers ex_marchers ex_marcherPages ex_page ex_fp = [ex_step4, ex_step8]"
  by (simp add: createStepSizesForMarchers_def ex_marchers_def ex_marcherPages_def ex_page_def
      ex_fp_def ex_step4_def ex_step8_def createStepSizeForMarcher_def new_StepSize_def
      calculateStepSize_def num_sub_def INCHES_PER_YARD_def map_filter_simps sqrt_400 sqrt_100)

text \<open>
  For the values 4 and 8 the comparator is positive on \<open>(4, 8)\<close>: the step of 4 to 5 is the
  larger one, and it is the \<open>max\<close> returned; the step of 8 to 5 is the \<open>min\<close>.
\<close>

theorem getMinAndMax_least_greatest_witness:
  "createStepSizesForMarchers ex_marchers ex_marcherPages ex_page ex_fp = [ex_step4, ex_step8]
   \<and> stepsPerFiveYards ex_step4 = Fin 4 \<and> stepsPerFiveYards ex_step8 = Fin 8
   \<and> num_gt (compare ex_step4 ex_step8) (Fin 0)
   \<and> getMinAndMaxStepSizesForMarchers ex_marchers ex_marcherPages ex_page ex_fp
       = \<lparr> min_step = Some ex_step8, max_step = Some ex_step4 \<rparr>
   \<and> createStepSizesForMarchers [] ex_marcherPages ex_page ex_fp = []
   \<and> getMinAndMaxStepSizesForMarchers [] ex_marcherPages ex_page ex_fp
       = \<lparr> min_step = None, max_step = None \<rparr>"
proof -
  note inst = getMinAndMax_least_greatest
    [of ex_step4 ex_step8 ex_marchers ex_marcherPages ex_page ex_fp]
  have cmp: "num_gt (compare ex_step4 ex_step8) (Fin 0)"
    using inst by (simp add: ex_step4_def ex_step8_def)
  have ne: "createStepSizesForMarchers ex_marchers ex_marcherPages ex_page ex_fp \<noteq> []"
    by (simp add: ex_createStepSizes)
  with inst obtain mn mx where r: "getMinAndMaxStepSizesForMarchers ex_marchers ex_marcherPages
        ex_page ex_fp = \<lparr> min_step = Some mn, max_step = Some mx \<rparr>"
    and mn: "mn \<in> set [ex_step4, ex_step8]" and mx: "mx \<in> set [ex_step4, ex_step8]"
    and least: "\<not> num_gt (compare mn ex_step8) (Fin 0)"
    and greatest: "\<not> num_gt (compare ex_step4 mx) (Fin 0)"
    unfolding ex_createStepSizes by auto
  have "mn = ex_step8" using mn least cmp by auto
  moreover have "mx = ex_step4" using mx greatest cmp by auto
  moreover have e: "createStepSizesForMarchers [] ex_marcherPages ex_page ex_fp = []"
    by (simp add: createStepSizesForMarchers_def map_filter_simps)
  moreover have "getMinAndMaxStepSizesForMarchers [] ex_marcherPages ex_page ex_fp
       = \<lparr> min_step = None, max_step = None \<rparr>"
    using getMinAndMax_least_greatest [of ex_step4 ex_step8 "[]" ex_marcherPages ex_page ex_fp] e
    by simp
  ultimately show ?thesis
    using r cmp ex_createStepSizes by (simp add: ex_step4_def ex_step8_def)
qed


section \<open>Where the batch computation takes its starting positions\<close>

lemma find_filter: "find P (filter Q xs) = find (\<lambda>x. Q x \<and> P x) xs"
  by (induction xs) auto

lemma map_filter_all_None: "(\<And>x. f x = None) \<Longrightarrow> List.map_filter f xs = []"
  by (induction xs) (simp_all add: map_filter_simps)

text \<open>
  Claim C10. In the batch computation for a page, a marcher's starting position is its first
  position stored under the page identity \<open>page.id - 1\<close>, whatever the sequence order of the
  pages is; a marcher with no ending position on the page, or with no such starting
  position, contributes nothing to the list. When no position is stored under \<open>page.id - 1\<close>
  the list is empty.
\<close>

theorem createStepSizesForMarchers_start_is_id_minus_one:
  "createStepSizesForMarchers marchers mps pg fp =
     List.map_filter
       (\<lambda>m. case find (\<lambda>mp. page_id mp = pg_id pg \<and> marcher_id mp = m_id m) mps of
               None \<Rightarrow> None
             | Some ep \<Rightarrow>
                 (case find (\<lambda>mp. page_id mp = pg_id pg - 1 \<and> marcher_id mp = m_id m) mps of
                    None \<Rightarrow> None
                  | Some sp \<Rightarrow>
                      Some (new_StepSize (marcher_id ep) (mp_x sp) (mp_y sp) (mp_x ep) (mp_y ep)
                              (counts pg) fp)))
       marchers
   \<and> ((\<forall>mp \<in> set mps. page_id mp \<noteq> pg_id pg - 1) \<longrightarrow>
        createStepSizesForMarchers marchers mps pg fp = [])"
proof
  let ?f = "\<lambda>m. case find (\<lambda>mp. page_id mp = pg_id pg \<and> marcher_id mp = m_id m) mps of
               None \<Rightarrow> None
             | Some ep \<Rightarrow>
                 (case find (\<lambda>mp. page_id mp = pg_id pg - 1 \<and> marcher_id mp = m_id m) mps of
                    None \<Rightarrow> None
                  | Some sp \<Rightarrow>
                      Some (new_StepSize (marcher_id ep) (mp_x sp) (mp_y sp) (mp_x ep) (mp_y ep)
                              (counts pg) fp))"
  have mf: "List.map_filter (\<lambda>x. x) (map g xs) = List.map_filter g xs" for g :: "marcher \<Rightarrow> stepSize option" and xs
    by (induction xs) (simp_all add: map_filter_simps split: option.splits)
  show eq: "createStepSizesForMarchers marchers mps pg fp = List.map_filter ?f marchers"
    unfolding createStepSizesForMarchers_def Let_def mf find_filter
    by (rule arg_cong [where f = "\<lambda>g. List.map_filter g marchers"])
       (auto simp: fun_eq_iff createStepSizeForMarcher_def split: option.splits)
  show "(\<forall>mp \<in> set mps. page_id mp \<noteq> pg_id pg - 1) \<longrightarrow>
        createStepSizesForMarchers marchers mps pg fp = []"
  proof
    assume a: "\<forall>mp \<in> set mps. page_id mp \<noteq> pg_id pg - 1"
    have fn: "find (\<lambda>mp. page_id mp = pg_id pg - 1 \<and> marcher_id mp = m_id m) mps = None" for m :: marcher
      using a by (auto simp: find_None_iff)
    have "?f m = None" for m :: marcher
      using fn [of m]
      by (cases "find (\<lambda>mp. page_id mp = pg_id pg \<and> marcher_id mp = m_id m) mps") simp_all
    then have "List.map_filter ?f marchers = []"
      by (rule map_filter_all_None)
    with eq show "createStepSizesForMarchers marchers mps pg fp = []" by simp
  qed
qed

text \<open>
  With pages of identities 1 and 3, both marchers have an ending position on page 3 and a
  position on the page before it in the sequence, and the list is empty.
\<close>

theorem createStepSizesForMarchers_start_is_id_minus_one_witness:
  "pg_order ex_gap_page = pg_order ex_page
   \<and> filter (\<lambda>mp. page_id mp = pg_id ex_gap_page - 1) ex_gap_marcherPages = []
   \<and> map marcher_id (filter (\<lambda>mp. page_id mp = pg_id ex_gap_page) ex_gap_marcherPages) = [1, 2]
   \<and> createStepSizesForMarchers ex_marchers ex_gap_marcherPages ex_gap_page ex_fp = []"
proof -
  have h: "\<forall>mp \<in> set ex_gap_marcherPages. page_id mp \<noteq> pg_id ex_gap_page - 1"
    by (simp add: ex_gap_marcherPages_def ex_gap_page_def)
  have "createStepSizesForMarchers ex_marchers ex_gap_marcherPages ex_gap_page ex_fp = []"
    using createStepSizesForMarchers_start_is_id_minus_one
      [of ex_marchers ex_gap_marcherPages ex_gap_page ex_fp] h by blast
  then show ?thesis
    by (simp add: ex_gap_marcherPages_def ex_gap_page_def ex_page_def)
qed

section \<open>Rendering the marchers\<close>

lemma liveMarkers_setMarcherCoords [simp]:
  "liveMarkers (setMarcherCoords ref mp c) = liveMarkers c"
proof -
  have k: "is_CanvasMarcher (moveMarker mp obj) = is_CanvasMarcher obj
      \<and> oid (moveMarker mp obj) = oid obj
      \<and> (is_CanvasMarcher obj \<longrightarrow> marcherObj (moveMarker mp obj) = marcherObj obj)" for obj
    by (cases obj) simp_all
  have "map (\<lambda>obj. (oid obj, marcherObj obj))
          (filter is_CanvasMarcher (map (\<lambda>obj. if oid obj = ref then moveMarker mp obj else obj) xs))
        = map (\<lambda>obj. (oid obj, marcherObj obj)) (filter is_CanvasMarcher xs)" for xs
    by (induction xs) (use k in auto)
  then show ?thesis
    by (simp add: liveMarkers_def getCanvasMarchers_def setMarcherCoords_def)
qed

lemma liveMarkers_console_error [simp]: "liveMarkers (console_error msg c) = liveMarkers c"
  by (simp add: liveMarkers_def getCanvasMarchers_def console_error_def)

lemma liveMarkers_requestRenderAll [simp]: "liveMarkers (requestRenderAll c) = liveMarkers c"
  by (simp add: liveMarkers_def getCanvasMarchers_def requestRenderAll_def)

lemma getCanvasMarchers_requestRenderAll [simp]:
  "getCanvasMarchers (requestRenderAll c) = getCanvasMarchers c"
  by (simp add: getCanvasMarchers_def requestRenderAll_def)

lemma liveMarkers_new_add [simp]:
  "liveMarkers (case new_CanvasMarcher m mp c of (obj, c') \<Rightarrow> add obj c')
     = liveMarkers c @ [(nextOid c, m)]"
  by (simp add: liveMarkers_def getCanvasMarchers_def new_CanvasMarcher_def add_def)

text \<open>What one iteration of the loop does to the live markers.\<close>

lemma liveMarkers_renderMarcher:
  "liveMarkers (renderMarcher S allMarchers c mp) =
     liveMarkers c @
       (case find (\<lambda>cm. m_id (marcherObj cm) = marcher_id mp) S of
          Some _ \<Rightarrow> []
        | None \<Rightarrow>
            (case find (\<lambda>m. m_id m = marcher_id mp) allMarchers of
               None \<Rightarrow> []
             | Some m \<Rightarrow> [(nextOid c, m)]))"
  by (simp add: renderMarcher_def split: option.splits)

lemma liveMarkers_foldl_renderMarcher:
  "\<exists>added. liveMarkers (foldl (renderMarcher S allMarchers) c mps) = liveMarkers c @ added"
proof (induction mps arbitrary: c)
  case Nil
  show ?case by simp
next
  case (Cons mp mps)
  obtain a where a: "liveMarkers (renderMarcher S allMarchers c mp) = liveMarkers c @ a"
    using liveMarkers_renderMarcher by blast
  obtain b where "liveMarkers (foldl (renderMarcher S allMarchers) (renderMarcher S allMarchers c mp) mps)
      = liveMarkers (renderMarcher S allMarchers c mp) @ b"
    using Cons.IH by blast
  with a show ?case by simp
qed

lemma find_marker_iff:
  "find (\<lambda>cm. m_id (marcherObj cm) = k) (getCanvasMarchers c) = None \<longleftrightarrow> k \<notin> markedIds c"
  by (auto simp: find_None_iff markedIds_def liveMarkers_def image_iff)

lemma markedIds_foldl_mono:
  "markedIds c \<subseteq> markedIds (foldl (renderMarcher S allMarchers) c mps)"
  using liveMarkers_foldl_renderMarcher [of S allMarchers c mps]
  by (auto simp: markedIds_def)

lemma renderMarcher_covers:
  assumes "find (\<lambda>cm. m_id (marcherObj cm) = marcher_id mp) S \<noteq> None
             \<Longrightarrow> marcher_id mp \<in> markedIds c"
  shows "marcher_id mp \<in> markedIds (renderMarcher S allMarchers c mp)
       \<or> find (\<lambda>m. m_id m = marcher_id mp) allMarchers = None"
proof (cases "find (\<lambda>cm. m_id (marcherObj cm) = marcher_id mp) S")
  case (Some cm)
  then show ?thesis
    using assms by (simp add: markedIds_def liveMarkers_renderMarcher)
next
  case None
  show ?thesis
  proof (cases "find (\<lambda>m. m_id m = marcher_id mp) allMarchers")
    case n: None
    then show ?thesis by simp
  next
    case (Some m)
    then have "m_id m = marcher_id mp"
      by (auto simp: find_Some_iff)
    then show ?thesis
      using None Some by (simp add: markedIds_def liveMarkers_renderMarcher)
  qed
qed

lemma foldl_renderMarcher_covers:
  assumes "\<And>k. find (\<lambda>cm. m_id (marcherObj cm) = k) S \<noteq> None \<Longrightarrow> k \<in> markedIds c"
    and "mp \<in> set mps"
  shows "marcher_id mp \<in> markedIds (foldl (renderMarcher S allMarchers) c mps)
       \<or> find (\<lambda>m. m_id m = marcher_id mp) allMarchers = None"
  using assms
proof (induction mps arbitrary: c)
  case Nil
  then show ?case by simp
next
  case (Cons x xs)
  let ?c = "renderMarcher S allMarchers c x"
  have mono: "markedIds c \<subseteq> markedIds ?c"
    using markedIds_foldl_mono [of c S allMarchers "[x]"] by simp
  show ?case
  proof (cases "mp = x")
    case True
    have "marcher_id x \<in> markedIds ?c \<or> find (\<lambda>m. m_id m = marcher_id x) allMarchers = None"
      by (rule renderMarcher_covers) (use Cons.prems(1) in blast)
    then show ?thesis
      using True markedIds_foldl_mono [of ?c S allMarchers xs] by auto
  next
    case False
    then have "mp \<in> set xs" using Cons.prems(2) by simp
    moreover have "\<And>k. find (\<lambda>cm. m_id (marcherObj cm) = k) S \<noteq> None \<Longrightarrow> k \<in> markedIds ?c"
      using Cons.prems(1) mono by blast
    ultimately show ?thesis using Cons.IH [of ?c] by simp
  qed
qed

lemma foldl_renderMarcher_no_new:
  assumes "\<And>mp. mp \<in> set mps \<Longrightarrow>
      find (\<lambda>cm. m_id (marcherObj cm) = marcher_id mp) S \<noteq> None
      \<or> find (\<lambda>m. m_id m = marcher_id mp) allMarchers = None"
  shows "liveMarkers (foldl (renderMarcher S allMarchers) c mps) = liveMarkers c"
  using assms
proof (induction mps arbitrary: c)
  case Nil
  show ?case by simp
next
  case (Cons x xs)
  have "liveMarkers (renderMarcher S allMarchers c x) = liveMarkers c"
    using Cons.prems [of x] by (auto simp: liveMarkers_renderMarcher split: option.splits)
  then show ?case using Cons by simp
qed

text \<open>
  Claim C8. Calling \<open>renderMarchers\<close> a second time with the same positions and the same
  marchers leaves the live markers as the first call left them: the same identities in
  the same order, each for the same marcher, and so the same number of them.
\<close>

theorem renderMarchers_idempotent_on_markers:
  "liveMarkers (renderMarchers mps allMarchers (renderMarchers mps allMarchers c))
     = liveMarkers (renderMarchers mps allMarchers c)
   \<and> length (getCanvasMarchers (renderMarchers mps allMarchers (renderMarchers mps allMarchers c)))
     = length (getCanvasMarchers (renderMarchers mps allMarchers c))"
proof -
  let ?c1 = "renderMarchers mps allMarchers c"
  let ?S1 = "getCanvasMarchers ?c1"
  let ?f = "foldl (renderMarcher (getCanvasMarchers c) allMarchers) c mps"
  have c1: "markedIds ?c1 = markedIds ?f"
    by (simp add: markedIds_def renderMarchers_def)
  have cover: "marcher_id mp \<in> markedIds ?c1
       \<or> find (\<lambda>m. m_id m = marcher_id mp) allMarchers = None" if "mp \<in> set mps" for mp
    unfolding c1
    by (rule foldl_renderMarcher_covers [OF _ that]) (simp add: find_marker_iff)
  have found: "find (\<lambda>cm. m_id (marcherObj cm) = marcher_id mp) ?S1 \<noteq> None
       \<or> find (\<lambda>m. m_id m = marcher_id mp) allMarchers = None" if "mp \<in> set mps" for mp
    using cover [OF that] find_marker_iff [of "marcher_id mp" ?c1] by auto
  have "liveMarkers (foldl (renderMarcher ?S1 allMarchers) ?c1 mps) = liveMarkers ?c1"
    by (rule foldl_renderMarcher_no_new) (rule found)
  then have eq: "liveMarkers (renderMarchers mps allMarchers ?c1) = liveMarkers ?c1"
    by (simp add: renderMarchers_def [of mps allMarchers ?c1] Let_def)
  have "length (getCanvasMarchers x) = length (liveMarkers x)" for x
    by (simp add: liveMarkers_def)
  with eq show ?thesis by simp
qed

text \<open>
  Claim C9. Every live marker on the canvas before a call to \<open>renderMarchers\<close> is on it
  after the call, with its identity and its marcher, whether or not the marcher has a
  position in the list given: the call only appends markers.
\<close>

theorem renderMarchers_keeps_markers:
  "\<exists>added. liveMarkers (renderMarchers mps allMarchers c) = liveMarkers c @ added"
  using liveMarkers_foldl_renderMarcher [of "getCanvasMarchers c" allMarchers c mps]
  by (simp add: renderMarchers_def)

subsection \<open>The calls on an example\<close>

lemma ex_render_once:
  "objects (renderMarchers ex_positions ex_marchers ex_canvas_marked) =
     [FieldGrid 0,
      CanvasMarcher 1 \<lparr> m_id = 7, drill_number = ''T7'' \<rparr> 5 5,
      CanvasMarcher 2 \<lparr> m_id = 1, drill_number = ''B1'' \<rparr> 0 20,
      CanvasMarcher 3 \<lparr> m_id = 2, drill_number = ''B2'' \<rparr> 0 10,
      CanvasMarcher 4 \<lparr> m_id = 2, drill_number = ''B2'' \<rparr> 3 4]"
  by (simp add: renderMarchers_def renderMarcher_def getCanvasMarchers_def new_CanvasMarcher_def
      add_def setMarcherCoords_def console_error_def requestRenderAll_def
      ex_canvas_marked_def ex_canvas_def ex_positions_def ex_marchers_def)

lemma ex_render_once_live:
  "liveMarkers (renderMarchers ex_positions ex_marchers ex_canvas_marked) =
     [(1, \<lparr> m_id = 7, drill_number = ''T7'' \<rparr>), (2, \<lparr> m_id = 1, drill_number = ''B1'' \<rparr>),
      (3, \<lparr> m_id = 2, drill_number = ''B2'' \<rparr>), (4, \<lparr> m_id = 2, drill_number = ''B2'' \<rparr>)]"
  by (simp add: liveMarkers_def getCanvasMarchers_def ex_render_once)

text \<open>The second call leaves the four markers of the first.\<close>

theorem renderMarchers_idempotent_on_markers_witness:
  "liveMarkers (renderMarchers ex_positions ex_marchers
       (renderMarchers ex_positions ex_marchers ex_canvas_marked)) =
     [(1, \<lparr> m_id = 7, drill_number = ''T7'' \<rparr>), (2, \<lparr> m_id = 1, drill_number = ''B1'' \<rparr>),
      (3, \<lparr> m_id = 2, drill_number = ''B2'' \<rparr>), (4, \<lparr> m_id = 2, drill_number = ''B2'' \<rparr>)]
   \<and> length (getCanvasMarchers (renderMarchers ex_positions ex_marchers
       (renderMarchers ex_positions ex_marchers ex_canvas_marked))) = 4"
  using renderMarchers_idempotent_on_markers [of ex_positions ex_marchers ex_canvas_marked]
  by (simp add: ex_render_once_live) (simp add: getCanvasMarchers_def ex_render_once)

text \<open>The marker of marcher 7, which has no position in the list, is kept.\<close>

theorem renderMarchers_keeps_markers_witness:
  "liveMarkers ex_canvas_marked = [(1, \<lparr> m_id = 7, drill_number = ''T7'' \<rparr>)]
   \<and> filter (\<lambda>mp. marcher_id mp = 7) ex_positions = []
   \<and> take 1 (liveMarkers (renderMarchers ex_positions ex_marchers ex_canvas_marked))
       = liveMarkers ex_canvas_marked"
proof -
  have b: "liveMarkers ex_canvas_marked = [(1, \<lparr> m_id = 7, drill_number = ''T7'' \<rparr>)]"
    by (simp add: liveMarkers_def getCanvasMarchers_def ex_canvas_marked_def ex_canvas_def)
  obtain added where "liveMarkers (renderMarchers ex_positions ex_marchers ex_canvas_marked)
      = liveMarkers ex_canvas_marked @ added"
    using renderMarchers_keeps_markers [of ex_positions ex_marchers ex_canvas_marked] by blast
  then have "take 1 (liveMarkers (renderMarchers ex_positions ex_marchers ex_canvas_marked))
       = liveMarkers ex_canvas_marked"
    by (simp add: b)
  then show ?thesis using b by (simp add: ex_positions_def)
qed

section \<open>Zooming with the mouse wheel\<close>

lemma zoom_zoomToPoint [simp]: "zoom (zoomToPoint p v c) = v"
  by (simp add: zoomToPoint_def Let_def)

lemma zoomToPoint_pivot: "worldToScreen (zoomToPoint p v c) (screenToWorld c p) = p"
  by (simp add: zoomToPoint_def Let_def worldToScreen_def)

lemma handleMouseWheel_canvas:
  "fst (handleMouseWheel c e) =
     (zoomToPoint (offsetX e, offsetY e) (clamp (getZoom c * 0.999 powr deltaY e) 0.35 25)
        (c\<lparr> staticGridObjectCaching := True \<rparr>))\<lparr> zoomTimeout := Some 50 \<rparr>"
proof (cases "staticGridObjectCaching c")
  case True
  then have eq: "c\<lparr> staticGridObjectCaching := True \<rparr> = c"
    by simp
  show ?thesis
    unfolding eq using True
    by (auto simp: handleMouseWheel_def Let_def clamp_def getZoom_def max_def min_def)
next
  case False
  then show ?thesis
    by (auto simp: handleMouseWheel_def Let_def clamp_def getZoom_def max_def min_def)
qed

lemma clamp_range: "0.35 \<le> clamp v 0.35 25 \<and> clamp v 0.35 25 \<le> 25"
  by (simp add: clamp_def)

lemma getZoom_handleMouseWheel:
  "getZoom (fst (handleMouseWheel c e)) = clamp (getZoom c * 0.999 powr deltaY e) 0.35 25"
  by (simp add: handleMouseWheel_canvas getZoom_def)

lemma handleMouseWheels_snoc:
  "handleMouseWheels c (es @ [e]) = fst (handleMouseWheel (handleMouseWheels c es) e)"
  by (simp add: handleMouseWheels_def)

lemma screenToWorld_caching [simp]:
  "screenToWorld (c\<lparr> staticGridObjectCaching := b \<rparr>) p = screenToWorld c p"
  by (simp add: screenToWorld_def)

lemma worldToScreen_timeout [simp]:
  "worldToScreen (c\<lparr> zoomTimeout := t \<rparr>) p = worldToScreen c p"
  by (simp add: worldToScreen_def)

text \<open>
  Claim C4. After a wheel event the zoom is \<open>clamp (previousZoom * 0.999 ^ delta) 0.35 25\<close>,
  it lies in \<open>[0.35, 25]\<close>, and the zoom is applied about the cursor: the point of the
  scene that was under the cursor before the event is under it after. The same holds
  after the last event of every sequence of wheel events.
\<close>

theorem handleMouseWheel_zoom_clamped:
  "getZoom (fst (handleMouseWheel c e)) = clamp (getZoom c * 0.999 powr deltaY e) 0.35 25
   \<and> 0.35 \<le> getZoom (fst (handleMouseWheel c e))
   \<and> getZoom (fst (handleMouseWheel c e)) \<le> 25
   \<and> worldToScreen (fst (handleMouseWheel c e)) (screenToWorld c (offsetX e, offsetY e))
       = (offsetX e, offsetY e)
   \<and> getZoom (handleMouseWheels c (es @ [e]))
       = clamp (getZoom (handleMouseWheels c es) * 0.999 powr deltaY e) 0.35 25
   \<and> 0.35 \<le> getZoom (handleMouseWheels c (es @ [e]))
   \<and> getZoom (handleMouseWheels c (es @ [e])) \<le> 25"
proof -
  have piv: "worldToScreen (fst (handleMouseWheel c e)) (screenToWorld c (offsetX e, offsetY e))
       = (offsetX e, offsetY e)"
    using zoomToPoint_pivot [of "(offsetX e, offsetY e)" _ "c\<lparr> staticGridObjectCaching := True \<rparr>"]
    by (simp add: handleMouseWheel_canvas)
  show ?thesis
    using piv clamp_range
    by (simp add: getZoom_handleMouseWheel handleMouseWheels_snoc)
qed

text \<open>Events of delta 0 at zooms 100, 0.1 and 1: the zoom becomes 25, 0.35 and stays 1.\<close>

theorem handleMouseWheel_zoom_clamped_witness:
  "getZoom (fst (handleMouseWheel (ex_canvas\<lparr> zoom := 100 \<rparr>) (ex_wheel 0))) = 25
   \<and> getZoom (fst (handleMouseWheel (ex_canvas\<lparr> zoom := 0.1 \<rparr>) (ex_wheel 0))) = 0.35
   \<and> getZoom (fst (handleMouseWheel ex_canvas (ex_wheel 0))) = 1"
  using handleMouseWheel_zoom_clamped [of "ex_canvas\<lparr> zoom := 100 \<rparr>" "ex_wheel 0"]
    handleMouseWheel_zoom_clamped [of "ex_canvas\<lparr> zoom := 0.1 \<rparr>" "ex_wheel 0"]
    handleMouseWheel_zoom_clamped [of ex_canvas "ex_wheel 0"]
  by (simp add: getZoom_def clamp_def ex_wheel_def ex_canvas_def)

section \<open>Dispatching the registered actions\<close>

lemma ex_previous: "getPreviousPage ex_page [ex_page1, ex_page] = Some ex_page1"
  by (simp add: getPreviousPage_def pageOfGreatestOrder_def ex_page_def ex_page1_def)

text \<open>
  Claim C5. When the selected page or the field configuration is absent, \<open>triggerAction\<close>
  returns normally for every action, and the state it leaves differs from the state it
  found only by one message added to the error log: no position patch is submitted, and
  the selection, the playing flag and the settings are as they were.
\<close>

theorem triggerAction_requires_page_and_field:
  assumes "selectedPage st = None \<or> fieldProperties st = None"
  shows "\<exists>msg. triggerAction getRoundCoordinates st action
           = Inr (st\<lparr> consoleErrors := consoleErrors st @ [msg] \<rparr>)"
  using assms
  by (auto simp: triggerAction_def console_error_app_def split: option.splits)

text \<open>Without a selected page, and without field properties.\<close>

theorem triggerAction_requires_page_and_field_witness:
  "selectedPage (ex_state\<lparr> selectedPage := None \<rparr>) = None
   \<and> triggerAction ex_roundCoordinates (ex_state\<lparr> selectedPage := None \<rparr>)
        setAllMarchersToPreviousPage
       = Inr (ex_state\<lparr> selectedPage := None, consoleErrors := [''No selected page''] \<rparr>)
   \<and> fieldProperties (ex_state\<lparr> fieldProperties := None \<rparr>) = None
   \<and> triggerAction ex_roundCoordinates (ex_state\<lparr> fieldProperties := None \<rparr>) lockX
       = Inr (ex_state\<lparr> fieldProperties := None, consoleErrors := [''No field properties''] \<rparr>)"
proof -
  have a: "selectedPage (ex_state\<lparr> selectedPage := None \<rparr>) = None" by simp
  have b: "fieldProperties (ex_state\<lparr> fieldProperties := None \<rparr>) = None" by simp
  obtain m1 where m1: "triggerAction ex_roundCoordinates (ex_state\<lparr> selectedPage := None \<rparr>)
        setAllMarchersToPreviousPage
       = Inr (ex_state\<lparr> selectedPage := None,
               consoleErrors := consoleErrors (ex_state\<lparr> selectedPage := None \<rparr>) @ [m1] \<rparr>)"
    using triggerAction_requires_page_and_field [of "ex_state\<lparr> selectedPage := None \<rparr>"
        ex_roundCoordinates setAllMarchersToPreviousPage] a by auto
  obtain m2 where m2: "triggerAction ex_roundCoordinates (ex_state\<lparr> fieldProperties := None \<rparr>) lockX
       = Inr (ex_state\<lparr> fieldProperties := None,
               consoleErrors := consoleErrors (ex_state\<lparr> fieldProperties := None \<rparr>) @ [m2] \<rparr>)"
    using triggerAction_requires_page_and_field [of "ex_state\<lparr> fieldProperties := None \<rparr>"
        ex_roundCoordinates lockX] b by auto
  have "m1 = ''No selected page''"
    using m1 by (simp add: triggerAction_def console_error_app_def ex_state_def)
  moreover have "m2 = ''No field properties''"
    using m2 by (simp add: triggerAction_def console_error_app_def ex_state_def)
  ultimately show ?thesis
    using m1 m2 by (simp add: ex_state_def)
qed

text \<open>
  Claim C6. With a selected page and a field configuration, the action that sets all
  marchers to the previous page makes one call of \<open>updateMarcherPages\<close> and changes nothing
  else. The list it submits holds one patch for every position stored for the previous
  page, in order, each the position with its page replaced by the selected page.
\<close>

theorem setAllMarchersToPreviousPage_single_submission:
  assumes "selectedPage st = Some selPage" and "fieldProperties st = Some fp"
  shows "triggerAction getRoundCoordinates st setAllMarchersToPreviousPage
     = Inr (st\<lparr> updateMarcherPagesCalls :=
                  updateMarcherPagesCalls st @
                    [map (\<lambda>mp. mp\<lparr> page_id := pg_id selPage \<rparr>)
                       (filter (\<lambda>mp. map_option pg_id (getPreviousPage selPage (pages st))
                                        = Some (page_id mp))
                          (marcherPages st))] \<rparr>)"
proof -
  have "onPage pg = (\<lambda>mp. map_option pg_id pg = Some (page_id mp))" for pg
    by (cases pg) (auto simp: onPage_def fun_eq_iff)
  then show ?thesis
    using assms by (simp add: triggerAction_def updateMarcherPages_def Let_def)
qed

lemma ex_fifty_previous:
  "filter (\<lambda>mp. map_option pg_id (Some ex_page1) = Some (page_id mp)) ex_fifty
     = map (\<lambda>i. \<lparr> mp_id = i, marcher_id = i, page_id = 1, mp_x = real_of_int i, mp_y = 0 \<rparr>) [1..50]"
  by (simp add: ex_fifty_def ex_page1_def filter_map o_def)

text \<open>
  Fifty positions on the previous page: one list of fifty patches is submitted, one for each
  marcher, all for page 2.
\<close>

theorem setAllMarchersToPreviousPage_single_submission_witness:
  "selectedPage (ex_state\<lparr> marcherPages := ex_fifty \<rparr>) = Some ex_page
   \<and> fieldProperties (ex_state\<lparr> marcherPages := ex_fifty \<rparr>) = Some ex_fp
   \<and> length (filter (\<lambda>mp. page_id mp = 1) ex_fifty) = 50
   \<and> (\<exists>changes.
         triggerAction ex_roundCoordinates (ex_state\<lparr> marcherPages := ex_fifty \<rparr>)
             setAllMarchersToPreviousPage
           = Inr (ex_state\<lparr> marcherPages := ex_fifty, updateMarcherPagesCalls := [changes] \<rparr>)
         \<and> length changes = 50
         \<and> map marcher_id changes = [1..50]
         \<and> map page_id changes = replicate 50 2)"
proof -
  let ?st = "ex_state\<lparr> marcherPages := ex_fifty \<rparr>"
  let ?changes = "map (\<lambda>mp. mp\<lparr> page_id := pg_id ex_page \<rparr>)
      (map (\<lambda>i. \<lparr> mp_id = i, marcher_id = i, page_id = 1, mp_x = real_of_int i, mp_y = 0 \<rparr>) [1..50])"
  have sp: "selectedPage ?st = Some ex_page" and fp: "fieldProperties ?st = Some ex_fp"
    by (simp_all add: ex_state_def)
  have pg: "pages ?st = [ex_page1, ex_page]" and calls: "updateMarcherPagesCalls ?st = []"
    and mps: "marcherPages ?st = ex_fifty"
    by (simp_all add: ex_state_def)
  have run: "triggerAction ex_roundCoordinates ?st setAllMarchersToPreviousPage
           = Inr (ex_state\<lparr> marcherPages := ex_fifty, updateMarcherPagesCalls := [?changes] \<rparr>)"
    using setAllMarchersToPreviousPage_single_submission [OF sp fp, of ex_roundCoordinates]
    unfolding pg calls mps ex_previous ex_fifty_previous by simp
  have n: "length (filter (\<lambda>mp. page_id mp = 1) ex_fifty) = 50"
    by (simp add: ex_fifty_def filter_map o_def)
  have l: "length ?changes = 50" by simp
  have m: "map marcher_id ?changes = [1..50]" by (simp add: o_def)
  have "map page_id ?changes = map (\<lambda>i. 2) [1..50]"
    by (simp add: o_def ex_page_def)
  also have "\<dots> = replicate 50 2"
    by (simp add: map_replicate_const)
  finally have p: "map page_id ?changes = replicate 50 2" .
  from sp fp n run l m p show ?thesis by blast
qed

subsection \<open>An action that throws\<close>

lemma find_throwing_throws:
  assumes "x \<in> set xs" "P x = Inl e" "\<And>y. y \<in> set xs \<Longrightarrow> P y = Inl e \<or> P y = Inr False"
  shows "find_throwing P xs = Inl e"
  using assms
proof (induction xs)
  case Nil
  then show ?case by simp
next
  case (Cons y ys)
  show ?case
  proof (cases "P y")
    case (Inl e')
    have "P y = Inl e \<or> P y = Inr False"
      by (rule Cons.prems(3)) simp
    then show ?thesis using Inl by auto
  next
    case (Inr b)
    have "P y = Inl e \<or> P y = Inr False"
      by (rule Cons.prems(3)) simp
    then have b: "b = False" and "y \<noteq> x"
      using Inr Cons.prems(2) by auto
    then have "x \<in> set ys" using Cons.prems(1) by simp
    then have "find_throwing P ys = Inl e"
      using Cons.IH Cons.prems(2,3) by simp
    then show ?thesis using Inr b by simp
  qed
qed

lemma setSelectedMarcherToPreviousPage_throws:
  assumes "selectedPage st = Some selPage" "fieldProperties st = Some fp"
    and "selectedMarchers st = []"
    and "getPreviousPage selPage (pages st) = Some prev"
    and "mp \<in> set (marcherPages st)" "page_id mp = pg_id prev"
  shows "triggerAction getRoundCoordinates st setSelectedMarcherToPreviousPage
     = Inl (TypeError ''Cannot read properties of undefined (reading 'id')'')"
proof -
  let ?e = "TypeError ''Cannot read properties of undefined (reading 'id')''"
  let ?P = "\<lambda>mp. if onPage (Some prev) mp
                 then (case selectedMarchers st of [] \<Rightarrow> Inl ?e
                       | m # _ \<Rightarrow> Inr (marcher_id mp = m_id m))
                 else Inr False"
  have "find_throwing ?P (marcherPages st) = Inl ?e"
    by (rule find_throwing_throws [of mp]) (use assms in \<open>auto simp: onPage_def\<close>)
  then show ?thesis
    using assms(1,2,4) by (simp add: triggerAction_def Let_def)
qed

text \<open>
  Claim C2 says that with a selected page and field properties present no dispatched action
  throws, and names the action that sets the selected marcher to the previous page with no
  marcher selected. In the example state (page 2 selected, positions stored for page 1, no
  marcher selected) that action throws: the callback of \<open>find\<close> reaches a position of the
  previous page and reads \<open>selectedMarchers[0].id\<close>.
\<close>

theorem triggerAction_empty_selection_throws:
  "triggerAction getRoundCoordinates ex_state setSelectedMarcherToPreviousPage
     = Inl (TypeError ''Cannot read properties of undefined (reading 'id')'')"
proof (rule setSelectedMarcherToPreviousPage_throws)
  show "selectedPage ex_state = Some ex_page" by (simp add: ex_state_def)
  show "fieldProperties ex_state = Some ex_fp" by (simp add: ex_state_def)
  show "selectedMarchers ex_state = []" by (simp add: ex_state_def)
  show "getPreviousPage ex_page (pages ex_state) = Some ex_page1"
    by (simp add: ex_state_def ex_previous)
  show "\<lparr> mp_id = 1, marcher_id = 1, page_id = 1, mp_x = 0, mp_y = 0 \<rparr>
      \<in> set (marcherPages ex_state)"
    by (simp add: ex_state_def ex_marcherPages_def)
  show "page_id \<lparr> mp_id = 1, marcher_id = 1, page_id = 1, mp_x = 0, mp_y = 0 \<rparr> = pg_id ex_page1"
    by (simp add: ex_page1_def)
qed

text \<open>
  A selected marcher with no position on the selected page: \<open>getSelectedMarcherPages\<close>
  hands \<open>undefined\<close> on to \<open>getRoundCoordinates\<close>.
\<close>

lemma getSelectedMarcherPages_undefined:
  "fst (getSelectedMarcherPages
          (ex_state\<lparr> selectedMarchers := [\<lparr> m_id = 3, drill_number = ''B3'' \<rparr>] \<rparr>)) = [None]"
  by (simp add: getSelectedMarcherPages_def ex_state_def ex_page_def ex_marcherPages_def)

subsection \<open>Key events\<close>

lemma toUpperCase_simps:
  "toUpperCase ''e'' = ''E''" "toUpperCase ''q'' = ''Q''" "toUpperCase ''p'' = ''P''"
  "toUpperCase ''1'' = ''1''" "toUpperCase ''z'' = ''Z''" "toUpperCase ''x'' = ''X''"
  "toUpperCase ''n'' = ''N''" "toUpperCase ''m'' = ''M''"
  by (simp_all add: toUpperCase_def lowerLetters_def upperLetters_def)

lemma toLowerCase_simps:
  "toLowerCase ''e'' = ''e''" "toLowerCase ''q'' = ''q''" "toLowerCase ''p'' = ''p''"
  "toLowerCase ''1'' = ''1''" "toLowerCase ''z'' = ''z''" "toLowerCase ''x'' = ''x''"
  "toLowerCase ''n'' = ''n''" "toLowerCase ''m'' = ''m''" "toLowerCase '' '' = '' ''"
  "toLowerCase ''P'' = ''p''"
  by (simp_all add: toLowerCase_def lowerLetters_def upperLetters_def)

lemma keyboardShortcutEntries_eq:
  "keyboardShortcutEntries =
     [(''E'', nextPage), (''Shift + E'', lastPage), (''Q'', previousPage),
      (''Shift + Q'', firstPage), (''Space'', playPause),
      (''Ctrl + Shift + P'', setAllMarchersToPreviousPage),
      (''Shift + P'', setSelectedMarcherToPreviousPage),
      (''1'', snapToNearestWhole), (''Z'', lockX), (''X'', lockY),
      (''M'', toggleNextPagePaths), (''N'', togglePreviousPagePaths)]"
  by (simp add: keyboardShortcutEntries_def RegisteredActionsEnum_values_def
      new_RegisteredAction_def new_KeyboardShortcut_def toString_def Let_def
      toUpperCase_simps toLowerCase_simps)

lemma dictionary_shift_p:
  "keyboardShortcutDictionary ''Shift + P'' = Some setSelectedMarcherToPreviousPage"
  by (simp add: keyboardShortcutDictionary_def fromEntries_def keyboardShortcutEntries_eq)

lemma ex_shift_p_chord:
  "toString (new_KeyboardShortcut (ev_key ex_shift_p) (ctrlKey ex_shift_p \<or> metaKey ex_shift_p)
     (altKey ex_shift_p) (shiftKey ex_shift_p)) = ''Shift + P''"
  by (simp add: ex_shift_p_def new_KeyboardShortcut_def toString_def
      toUpperCase_simps toLowerCase_simps)

text \<open>The three outcomes of a key-down.\<close>

lemma handleKeyDown_editable:
  "matches_editable el \<Longrightarrow> handleKeyDown getRoundCoordinates st (Some el) e = (Inr st, False)"
  by (simp add: handleKeyDown_def)

lemma handleKeyDown_no_action:
  assumes "activeElement = None \<or> (\<exists>el. activeElement = Some el \<and> \<not> matches_editable el)"
    and "keyboardShortcutDictionary
           (toString (new_KeyboardShortcut (ev_key e) (ctrlKey e \<or> metaKey e) (altKey e)
              (shiftKey e))) = None"
  shows "handleKeyDown getRoundCoordinates st activeElement e = (Inr st, False)"
  using assms by (auto simp: handleKeyDown_def Let_def)

lemma handleKeyDown_action:
  assumes "activeElement = None \<or> (\<exists>el. activeElement = Some el \<and> \<not> matches_editable el)"
    and "keyboardShortcutDictionary
           (toString (new_KeyboardShortcut (ev_key e) (ctrlKey e \<or> metaKey e) (altKey e)
              (shiftKey e))) = Some action"
  shows "handleKeyDown getRoundCoordinates st activeElement e =
     (case triggerAction getRoundCoordinates st action of
        Inl ex \<Rightarrow> (Inl ex, False)
      | Inr st' \<Rightarrow> (Inr st', True))"
  using assms by (auto simp: handleKeyDown_def Let_def)

text \<open>
  Claim C7 says that a key-down whose chord maps to a registered action, with the focus
  outside an editable control, invokes the handler and suppresses the event's default
  behaviour. For Shift and P in the example state, with the focus on the canvas, the
  handler is invoked and throws, and \<open>preventDefault\<close>, which follows the call, is not
  reached.
\<close>

theorem handleKeyDown_throw_skips_preventDefault:
  "handleKeyDown getRoundCoordinates ex_state (Some ex_focus_canvas) ex_shift_p
     = (Inl (TypeError ''Cannot read properties of undefined (reading 'id')''), False)"
proof -
  have "triggerAction getRoundCoordinates ex_state setSelectedMarcherToPreviousPage
     = Inl (TypeError ''Cannot read properties of undefined (reading 'id')'')"
    by (rule setSelectedMarcherToPreviousPage_throws
          [where selPage = ex_page and fp = ex_fp and prev = ex_page1
             and mp = "\<lparr> mp_id = 1, marcher_id = 1, page_id = 1, mp_x = 0, mp_y = 0 \<rparr>"])
       (simp_all add: ex_state_def ex_previous ex_marcherPages_def,
        simp add: ex_page1_def)
  then show ?thesis
    using handleKeyDown_action [of "Some ex_focus_canvas" ex_shift_p
        setSelectedMarcherToPreviousPage getRoundCoordinates ex_state]
    by (simp add: ex_shift_p_chord dictionary_shift_p ex_focus_canvas_def matches_editable_def)
qed

text \<open>The same chord with a marcher selected, and in a text input.\<close>

lemma handleKeyDown_shift_p_selected:
  "handleKeyDown getRoundCoordinates
     (ex_state\<lparr> selectedMarchers := [\<lparr> m_id = 1, drill_number = ''B1'' \<rparr>] \<rparr>)
     (Some ex_focus_canvas) ex_shift_p
     = (Inr (ex_state\<lparr> selectedMarchers := [\<lparr> m_id = 1, drill_number = ''B1'' \<rparr>],
               updateMarcherPagesCalls :=
                 [[\<lparr> mp_id = 1, marcher_id = 1, page_id = 2, mp_x = 0, mp_y = 0 \<rparr>]] \<rparr>), True)"
proof -
  let ?st = "ex_state\<lparr> selectedMarchers := [\<lparr> m_id = 1, drill_number = ''B1'' \<rparr>] \<rparr>"
  have p: "getPreviousPage ex_page (pages ?st) = Some ex_page1"
    by (simp add: ex_state_def ex_previous)
  have "triggerAction getRoundCoordinates ?st setSelectedMarcherToPreviousPage
     = Inr (?st\<lparr> updateMarcherPagesCalls :=
                 [[\<lparr> mp_id = 1, marcher_id = 1, page_id = 2, mp_x = 0, mp_y = 0 \<rparr>]] \<rparr>)"
    unfolding triggerAction_def Let_def
    by (simp add: ex_state_def ex_previous)
       (simp add: ex_marcherPages_def onPage_def ex_page1_def ex_page_def
          updateMarcherPages_def ex_state_def)
  then show ?thesis
    using handleKeyDown_action [of "Some ex_focus_canvas" ex_shift_p
        setSelectedMarcherToPreviousPage getRoundCoordinates ?st]
    by (simp add: ex_shift_p_chord dictionary_shift_p ex_focus_canvas_def matches_editable_def)
qed

lemma handleKeyDown_shift_p_in_input:
  "handleKeyDown getRoundCoordinates ex_state
     (Some \<lparr> tagName = ''input'', hasContentEditable = False \<rparr>) ex_shift_p = (Inr ex_state, False)"
  by (rule handleKeyDown_editable) (simp add: matches_editable_def)

end
